theory Spec2Isabelle
  imports Complex_Main "HOL-Library.Word"
begin

section \<open>The STOMP planner adapter of stomp\_moveit (stomp\_planner.cpp)\<close>

text \<open>
  A shallow embedding of \<^verbatim>\<open>src/stomp_moveit/src/stomp_planner.cpp\<close>.
  Messages and objects are records, C++ \<^verbatim>\<open>double\<close> values are reals (the code only
  copies, compares and subtracts them), \<^verbatim>\<open>std::vector\<close> is a list.  The planner
  object, the response and the observable calls to the optimizer are passed explicitly.
  An access the C++ standard leaves undefined (\<^verbatim>\<open>front()\<close>, \<^verbatim>\<open>back()\<close> or
  \<^verbatim>\<open>operator[]\<close> outside a container, a null handle dereferenced) is the outcome
  \<open>Undefined\<close>.
\<close>

datatype 'a exec = Undefined | Done 'a

subsection \<open>Messages\<close>

type_synonym Vec = "real list"

type_synonym Point = "real \<times> real \<times> real"

type_synonym Quaternion = "real \<times> real \<times> real \<times> real"

record Pose =
  pose_position :: Point
  pose_orientation :: Quaternion

text \<open>\<^verbatim>\<open>trajectory_msgs::JointTrajectoryPoint\<close> (the effort field is never touched).\<close>

record JointTrajectoryPoint =
  positions :: Vec
  velocities :: Vec
  accelerations :: Vec
  time_from_start :: real

record JointTrajectory =
  joint_names :: "string list"
  points :: "JointTrajectoryPoint list"

text \<open>\<^verbatim>\<open>moveit_msgs::JointConstraint\<close>: the code reads the name and the position only.\<close>

record JointConstraint =
  joint_name :: string
  position :: real

record PositionConstraint =
  primitive_poses :: "Pose list"

record OrientationConstraint =
  orientation :: Quaternion

record Constraints =
  joint_constraints :: "JointConstraint list"
  position_constraints :: "PositionConstraint list"
  orientation_constraints :: "OrientationConstraint list"

text \<open>A robot state assigns a position to every variable name.\<close>

type_synonym RobotState = "string \<Rightarrow> real"

text \<open>The start state message: named joint positions, read only by the conversion
  \<^verbatim>\<open>robotStateMsgToRobotState\<close>.\<close>

type_synonym RobotStateMsg = "(string \<times> real) list"

record MotionPlanRequest =
  group_name :: string
  start_state :: RobotStateMsg
  goal_constraints :: "Constraints list"
  trajectory_constraints :: "Constraints list"
  max_velocity_scaling_factor :: real

text \<open>The values of \<^verbatim>\<open>moveit_msgs::MoveItErrorCodes\<close> the planner writes, and the
  value 0 of a default-constructed message.\<close>

datatype MoveItErrorCodes = UNSET | SUCCESS | FAILURE | PLANNING_FAILED | INVALID_MOTION_PLAN

text \<open>\<^verbatim>\<open>robot_trajectory::RobotTrajectory\<close> as \<^verbatim>\<open>setRobotTrajectoryMsg\<close> receives it:
  a reference state and a joint trajectory message.\<close>

record RobotTrajectory =
  reference_state :: RobotState
  trajectory_msg :: JointTrajectory

text \<open>The detailed response (members \<^verbatim>\<open>trajectory_\<close>, \<^verbatim>\<open>description_\<close>,
  \<^verbatim>\<open>processing_time_\<close>, \<^verbatim>\<open>error_code_\<close>) holds shared pointers to trajectories:
  \<open>None\<close> is the null pointer.  The compact response has \<^verbatim>\<open>trajectory_\<close>,
  \<^verbatim>\<open>planning_time_\<close> and \<^verbatim>\<open>error_code_\<close>.\<close>

record MotionPlanDetailedResponse =
  d_trajectory :: "RobotTrajectory option list"
  d_description :: "string list"
  d_processing_time :: "real list"
  d_error_code :: MoveItErrorCodes

record MotionPlanResponse =
  r_trajectory :: "RobotTrajectory option"
  r_planning_time :: real
  r_error_code :: MoveItErrorCodes

subsection \<open>Solver data\<close>

text \<open>\<^verbatim>\<open>stomp_core::StompConfiguration\<close>, with the fields \<^verbatim>\<open>parseConfig\<close> fills.\<close>

record StompConfiguration =
  control_cost_weight :: real
  initialization_method :: int
  num_timesteps :: int
  delta_t :: real
  num_iterations :: int
  num_iterations_after_valid :: int
  max_rollouts :: int
  num_rollouts :: int
  exponentiated_cost_sensitivity :: real
  num_dimensions :: int

text \<open>\<^verbatim>\<open>Eigen::MatrixXd\<close>: a row count and the list of columns, each column holding
  one coefficient per row.\<close>

record MatrixXd =
  mrows :: nat
  columns :: "Vec list"

definition mcols :: "MatrixXd \<Rightarrow> nat" where
  "mcols m = length (columns m)"

definition coeff :: "MatrixXd \<Rightarrow> nat \<Rightarrow> nat \<Rightarrow> real" where
  "coeff m r c = columns m ! c ! r"

text \<open>The optimizer handle \<^verbatim>\<open>stomp_\<close>: the configuration \<^verbatim>\<open>setConfig\<close> stores.\<close>

record Stomp =
  config :: StompConfiguration

text \<open>The planning scene is used through \<^verbatim>\<open>isPathValid(trajectory, group, verbose)\<close>.\<close>

record PlanningScene =
  isPathValid :: "RobotTrajectory \<Rightarrow> string \<Rightarrow> bool \<Rightarrow> bool"

text \<open>The robot model as the planner reads it for its own planning group (\<^verbatim>\<open>setup\<close>
  throws when the group is missing): the variable names the model knows, their position
  bounds, the group's active joint names and its link names.\<close>

record RobotModel =
  variable_names :: "string list"
  variable_bounds :: "string \<Rightarrow> real \<times> real"
  getActiveJointModelNames :: "string list"
  getLinkModelNames :: "string list"

text \<open>The planner object: members \<^verbatim>\<open>group_\<close>, \<^verbatim>\<open>robot_model_\<close>,
  \<^verbatim>\<open>stomp_config_\<close>, \<^verbatim>\<open>stomp_\<close>, \<^verbatim>\<open>planning_scene_\<close> and \<^verbatim>\<open>request_\<close>.
  The two shared pointers \<^verbatim>\<open>stomp_\<close> and \<^verbatim>\<open>planning_scene_\<close> may be null.\<close>

record StompPlanner =
  planner_group :: string
  robot_model :: RobotModel
  stomp_config :: StompConfiguration
  stomp :: "Stomp option"
  planning_scene :: "PlanningScene option"
  request :: MotionPlanRequest

subsection \<open>Collaborators\<close>

text \<open>
  The calls the planner makes to code outside the file, as parameters:
  \<^item> \<open>now k\<close> is the \<open>k\<close>-th reading of \<^verbatim>\<open>ros::WallTime::now()\<close>, in seconds;
  \<^item> \<open>robotStateMsgToRobotState\<close> returns its flag and the state it filled;
  \<^item> \<open>setFromIK state pose tip attempts timeout\<close> is \<open>None\<close> when IK fails;
  \<^item> \<open>setMotionPlanRequest\<close> is the optimization task's binding of request and
    configuration; it receives the response's error code by reference;
  \<^item> \<open>stomp_solve_initial\<close> and \<open>stomp_solve_start_goal\<close> are the two overloads of
    \<^verbatim>\<open>stomp_->solve\<close>, returning the flag and the matrix written;
  \<^item> \<open>stomp_cancel\<close> is \<^verbatim>\<open>stomp_->cancel()\<close>;
  \<^item> \<open>computeTimeStamps traj scale\<close> is the time parameterization of lines 291-302:
    \<open>None\<close> when \<^verbatim>\<open>computeTimeStamps\<close> returns false, otherwise the joint trajectory
    read back with \<^verbatim>\<open>getRobotTrajectoryMsg\<close>.
\<close>

record Collaborators =
  now :: "nat \<Rightarrow> real"
  robotStateMsgToRobotState :: "RobotStateMsg \<Rightarrow> bool \<times> RobotState"
  setFromIK :: "RobotState \<Rightarrow> Pose \<Rightarrow> string \<Rightarrow> int \<Rightarrow> real \<Rightarrow> RobotState option"
  setMotionPlanRequest ::
    "MotionPlanRequest \<Rightarrow> StompConfiguration \<Rightarrow> MoveItErrorCodes \<Rightarrow> bool \<times> MoveItErrorCodes"
  stomp_solve_initial :: "Stomp \<Rightarrow> MatrixXd \<Rightarrow> bool \<times> MatrixXd"
  stomp_solve_start_goal :: "Stomp \<Rightarrow> Vec \<Rightarrow> Vec \<Rightarrow> bool \<times> MatrixXd"
  stomp_cancel :: "Stomp \<Rightarrow> bool"
  computeTimeStamps :: "RobotTrajectory \<Rightarrow> real \<Rightarrow> JointTrajectory option"

text \<open>The calls to the optimizer, its task and inverse kinematics, in the order made,
  each with its arguments and the flag it returned (\<^verbatim>\<open>setConfig\<close> returns nothing).\<close>

datatype call =
    SetMotionPlanRequest StompConfiguration bool
  | SetConfig StompConfiguration
  | SolveInitial MatrixXd bool
  | SolveStartGoal Vec Vec bool
  | SetFromIK Pose string int real bool
  | Cancel bool

record World =
  ticks :: nat
  calls :: "call list"

definition record_call :: "call \<Rightarrow> World \<Rightarrow> World" where
  "record_call c w = w\<lparr>calls := calls w @ [c]\<rparr>"

definition read_clock :: "Collaborators \<Rightarrow> World \<Rightarrow> real \<times> World" where
  "read_clock env w = (now env (ticks w), w\<lparr>ticks := Suc (ticks w)\<rparr>)"

subsection \<open>Constants (lines 34-36)\<close>

text \<open>Conversion of a \<^verbatim>\<open>double\<close> to \<^verbatim>\<open>int\<close> truncates towards zero.\<close>

definition double_to_int :: "real \<Rightarrow> int" where
  "double_to_int x = (if 0 \<le> x then \<lfloor>x\<rfloor> else \<lceil>x\<rceil>)"

definition IK_ATTEMPTS :: int where
  "IK_ATTEMPTS = 10"

definition IK_TIMEOUT :: int where
  "IK_TIMEOUT = double_to_int 0.05"

text \<open>Conversion of a container size to the 32-bit \<^verbatim>\<open>int\<close> field
  \<^verbatim>\<open>num_timesteps\<close>: the low 32 bits, read as two's complement.\<close>

definition size_to_int :: "nat \<Rightarrow> int" where
  "size_to_int n = sint (word_of_nat n :: 32 word)"

subsection \<open>Trajectory representation (lines 273-324)\<close>

definition empty_point :: JointTrajectoryPoint where
  "empty_point = \<lparr>positions = [], velocities = [], accelerations = [], time_from_start = 0\<rparr>"

definition empty_trajectory :: JointTrajectory where
  "empty_trajectory = \<lparr>joint_names = [], points = []\<rparr>"

text \<open>\<^verbatim>\<open>jointTrajectorytoParameters\<close>: \<open>mat(joint, step) = points[step].positions[joint]\<close>
  for every step and joint; reading a position list shorter than the joint name list is
  outside the vector.\<close>

definition jointTrajectorytoParameters :: "JointTrajectory \<Rightarrow> (bool \<times> MatrixXd) exec" where
  "jointTrajectorytoParameters traj =
     (let dof = length (joint_names traj);
          timesteps = length (points traj)
      in if \<forall>step \<in> set [0..<timesteps]. dof \<le> length (positions (points traj ! step))
         then Done (True,
                \<lparr>mrows = dof,
                 columns = map (\<lambda>step. map (\<lambda>joint. positions (points traj ! step) ! joint) [0..<dof])
                               [0..<timesteps]\<rparr>)
         else Undefined)"

text \<open>The structural part of \<^verbatim>\<open>parametersToJointTrajectory\<close> (lines 277-289): one
  point per column, zero velocities, accelerations and time.\<close>

definition fill_trajectory :: "StompPlanner \<Rightarrow> MatrixXd \<Rightarrow> JointTrajectory" where
  "fill_trajectory p parameters =
     \<lparr>joint_names = getActiveJointModelNames (robot_model p),
      points = map (\<lambda>t. \<lparr>positions = map (\<lambda>r. coeff parameters r t) [0..<mrows parameters],
                         velocities = replicate (mrows parameters) 0,
                         accelerations = replicate (mrows parameters) 0,
                         time_from_start = 0\<rparr>)
                   [0..<mcols parameters]\<rparr>"

text \<open>\<^verbatim>\<open>parametersToJointTrajectory\<close>: the filled trajectory is time-parameterized
  against the request's start state; when that fails the filled trajectory stays.\<close>

definition parametersToJointTrajectory ::
  "Collaborators \<Rightarrow> StompPlanner \<Rightarrow> MatrixXd \<Rightarrow> bool \<times> JointTrajectory" where
  "parametersToJointTrajectory env p parameters =
     (let trajectory = fill_trajectory p parameters;
          robot_state = snd (robotStateMsgToRobotState env (start_state (request p)));
          traj = \<lparr>reference_state = robot_state, trajectory_msg = trajectory\<rparr>
      in case computeTimeStamps env traj (max_velocity_scaling_factor (request p)) of
           Some timed \<Rightarrow> (True, timed)
         | None \<Rightarrow> (True, trajectory))"

subsection \<open>Seed extraction (lines 326-365)\<close>

text \<open>The inner loop over the joint constraints of one waypoint, from index \<open>j\<close>:
  \<open>None\<close> is the early \<^verbatim>\<open>return false\<close> on a joint name that differs from
  \<open>names[j]\<close>.  The caller has checked that the waypoint has as many constraints as
  there are names, so \<open>names[j]\<close> is inside the vector.\<close>

fun seed_joint_loop ::
  "string list \<Rightarrow> JointConstraint list \<Rightarrow> nat \<Rightarrow> JointTrajectoryPoint \<Rightarrow> JointTrajectoryPoint option"
  where
  "seed_joint_loop names [] j joint_pt = Some joint_pt"
| "seed_joint_loop names (c # cs) j joint_pt =
     (if joint_name c \<noteq> names ! j then None
      else seed_joint_loop names cs (Suc j) (joint_pt\<lparr>positions := positions joint_pt @ [position c]\<rparr>))"

text \<open>The outer loop over the waypoints; the flag is false on an early return, and the
  seed then keeps the points pushed so far.\<close>

fun seed_waypoint_loop ::
  "string list \<Rightarrow> Constraints list \<Rightarrow> JointTrajectory \<Rightarrow> bool \<times> JointTrajectory" where
  "seed_waypoint_loop names [] seed = (True, seed)"
| "seed_waypoint_loop names (w # ws) seed =
     (if length (joint_constraints w) \<noteq> length names then (False, seed)
      else case seed_joint_loop names (joint_constraints w) 0 empty_point of
             None \<Rightarrow> (False, seed)
           | Some joint_pt \<Rightarrow> seed_waypoint_loop names ws (seed\<lparr>points := points seed @ [joint_pt]\<rparr>))"

definition extractSeedTrajectory ::
  "RobotModel \<Rightarrow> MotionPlanRequest \<Rightarrow> JointTrajectory \<Rightarrow> bool \<times> JointTrajectory" where
  "extractSeedTrajectory m req seed =
     (if trajectory_constraints req = [] then (False, seed)
      else let names = getActiveJointModelNames m
           in case seed_waypoint_loop names (trajectory_constraints req) seed of
                (False, seed') \<Rightarrow> (False, seed')
              | (True, seed') \<Rightarrow> (True, seed'\<lparr>joint_names := names\<rparr>))"

subsection \<open>Start and goal (lines 367-453)\<close>

text \<open>Modelled from the spec: \<^verbatim>\<open>RobotState::enforceBounds\<close> belongs to the kinematics
  library, not to the file.  The spec describes it as "clamp/enforce joint bounds" for the
  planning group: every active joint of the group is clamped into its bounds.\<close>

definition clamp :: "real \<times> real \<Rightarrow> real \<Rightarrow> real" where
  "clamp b x = max (fst b) (min (snd b) x)"

definition enforceBounds :: "RobotModel \<Rightarrow> RobotState \<Rightarrow> RobotState" where
  "enforceBounds m st =
     (\<lambda>n. if n \<in> set (getActiveJointModelNames m) then clamp (variable_bounds m n) (st n) else st n)"

text \<open>Reading or writing a variable the model does not know throws
  \<^verbatim>\<open>moveit::Exception\<close>, which \<^verbatim>\<open>getStartAndGoal\<close> catches (lines 445-449):
  \<open>None\<close> is that exception.\<close>

definition getVariablePosition :: "RobotModel \<Rightarrow> RobotState \<Rightarrow> string \<Rightarrow> real option" where
  "getVariablePosition m st n = (if n \<in> set (variable_names m) then Some (st n) else None)"

definition setVariablePosition ::
  "RobotModel \<Rightarrow> RobotState \<Rightarrow> string \<Rightarrow> real \<Rightarrow> RobotState option" where
  "setVariablePosition m st n v = (if n \<in> set (variable_names m) then Some (st(n := v)) else None)"

text \<open>The copy loops \<open>start(j) = state->getVariablePosition(joint_names[j])\<close>.\<close>

fun copy_positions :: "RobotModel \<Rightarrow> RobotState \<Rightarrow> string list \<Rightarrow> Vec option" where
  "copy_positions m st [] = Some []"
| "copy_positions m st (n # ns) =
     (case getVariablePosition m st n of
        None \<Rightarrow> None
      | Some v \<Rightarrow> (case copy_positions m st ns of None \<Rightarrow> None | Some vs \<Rightarrow> Some (v # vs)))"

text \<open>The loop of lines 429-433 writing the goal's joint constraints into the state.\<close>

fun set_goal_positions :: "RobotModel \<Rightarrow> RobotState \<Rightarrow> JointConstraint list \<Rightarrow> RobotState option"
  where
  "set_goal_positions m st [] = Some st"
| "set_goal_positions m st (jc # jcs) =
     (case setVariablePosition m st (joint_name jc) (position jc) of
        None \<Rightarrow> None
      | Some st' \<Rightarrow> set_goal_positions m st' jcs)"

text \<open>\<^verbatim>\<open>getStartAndGoal\<close>: \<open>Done (None, w)\<close> is the return value false (the caller
  does not read the two vectors then), \<open>Done (Some (start, goal), w)\<close> is true.\<close>

definition getStartAndGoal ::
  "Collaborators \<Rightarrow> StompPlanner \<Rightarrow> World \<Rightarrow> ((Vec \<times> Vec) option \<times> World) exec" where
  "getStartAndGoal env p w =
     (let m = robot_model p in
      case getLinkModelNames m of
        [] \<Rightarrow> Undefined
      | l # ls \<Rightarrow>
         let tool_link = last (l # ls);
             (parsed, state0) = robotStateMsgToRobotState env (start_state (request p))
         in if \<not> parsed then Done (None, w)
            else
              let names = getActiveJointModelNames m;
                  state1 = enforceBounds m state0
              in case copy_positions m state1 names of
                   None \<Rightarrow> Done (None, w)
                 | Some start \<Rightarrow>
                    (case goal_constraints (request p) of
                       [] \<Rightarrow> Done (None, w)
                     | gc # _ \<Rightarrow>
                        if joint_constraints gc = [] then
                          (case position_constraints gc of
                             [] \<Rightarrow> Undefined
                           | pos_constraint # _ \<Rightarrow>
                              (case orientation_constraints gc of
                                 [] \<Rightarrow> Undefined
                               | orient_constraint # _ \<Rightarrow>
                                  (case primitive_poses pos_constraint of
                                     [] \<Rightarrow> Undefined
                                   | region_pose # _ \<Rightarrow>
                                      let pose = \<lparr>pose_position = pose_position region_pose,
                                                  pose_orientation = orientation orient_constraint\<rparr>;
                                          timeout = real_of_int IK_TIMEOUT
                                      in case setFromIK env state1 pose tool_link IK_ATTEMPTS timeout of
                                           None \<Rightarrow>
                                            Done (None,
                                              record_call (SetFromIK pose tool_link IK_ATTEMPTS timeout False) w)
                                         | Some state2 \<Rightarrow>
                                            let w1 = record_call (SetFromIK pose tool_link IK_ATTEMPTS timeout True) w
                                            in (case copy_positions m (enforceBounds m state2) names of
                                                  None \<Rightarrow> Done (None, w1)
                                                | Some goal \<Rightarrow> Done (Some (start, goal), w1)))))
                        else
                          (case set_goal_positions m state1 (joint_constraints gc) of
                             None \<Rightarrow> Done (None, w)
                           | Some state2 \<Rightarrow>
                              (case copy_positions m (enforceBounds m state2) names of
                                 None \<Rightarrow> Done (None, w)
                               | Some goal \<Rightarrow> Done (Some (start, goal), w)))))"

subsection \<open>Solving (lines 153-271)\<close>

text \<open>\<^verbatim>\<open>resize(1)\<close> on a vector: an empty vector gets one value-initialized element,
  a longer one keeps its first element.\<close>

definition resize1 :: "'a \<Rightarrow> 'a list \<Rightarrow> 'a list" where
  "resize1 d xs = (case xs of [] \<Rightarrow> [d] | x # _ \<Rightarrow> [x])"

text \<open>Lines 236-270, after the optimizer has returned.  The local \<^verbatim>\<open>success\<close> is
  assigned false at line 262 and never read; line 270 returns the literal \<^verbatim>\<open>true\<close>.\<close>

definition handle_results ::
  "Collaborators \<Rightarrow> StompPlanner \<Rightarrow> MotionPlanDetailedResponse \<Rightarrow> real \<Rightarrow> bool \<Rightarrow> MatrixXd \<Rightarrow> World
     \<Rightarrow> bool \<times> MotionPlanDetailedResponse \<times> World" where
  "handle_results env p res start_time planning_success parameters w =
     (if planning_success then
        let (converted, trajectory) = parametersToJointTrajectory env p parameters
        in if \<not> converted then (False, res\<lparr>d_error_code := PLANNING_FAILED\<rparr>, w)
           else
             let robot_state = snd (robotStateMsgToRobotState env (start_state (request p)));
                 result = \<lparr>reference_state = robot_state, trajectory_msg = trajectory\<rparr>;
                 res1 = res\<lparr>d_trajectory := (d_trajectory res)[0 := Some result]\<rparr>;
                 res2 = (case planning_scene p of
                           None \<Rightarrow> res1
                         | Some scene \<Rightarrow>
                            if \<not> isPathValid scene result (planner_group p) True
                            then res1\<lparr>d_error_code := PLANNING_FAILED\<rparr>
                            else res1);
                 (end_time, w1) = read_clock env w
             in (True, res2\<lparr>d_processing_time := (d_processing_time res2)[0 := end_time - start_time]\<rparr>, w1)
      else (False, res\<lparr>d_error_code := PLANNING_FAILED\<rparr>, w))"

text \<open>Lines 204-211 and 226-233: bind request and configuration to the task, apply the
  configuration to the optimizer, and run the solve call given as \<open>run\<close>, recorded by
  \<open>solve_call\<close>.\<close>

definition configure_and_solve ::
  "Collaborators \<Rightarrow> StompPlanner \<Rightarrow> MotionPlanDetailedResponse \<Rightarrow> real \<Rightarrow> StompConfiguration
     \<Rightarrow> (Stomp \<Rightarrow> bool \<times> MatrixXd) \<Rightarrow> (bool \<Rightarrow> call) \<Rightarrow> World
     \<Rightarrow> (bool \<times> MotionPlanDetailedResponse \<times> StompPlanner \<times> World) exec" where
  "configure_and_solve env p res start_time config_copy run solve_call w =
     (let (bound, code) = setMotionPlanRequest env (request p) config_copy (d_error_code res);
          w1 = record_call (SetMotionPlanRequest config_copy bound) w
      in if \<not> bound then Done (False, res\<lparr>d_error_code := FAILURE\<rparr>, p, w1)
         else
           case stomp p of
             None \<Rightarrow> Undefined
           | Some s \<Rightarrow>
              let s' = s\<lparr>config := config_copy\<rparr>;
                  p' = p\<lparr>stomp := Some s'\<rparr>;
                  w2 = record_call (SetConfig config_copy) w1;
                  (planning_success, parameters) = run s';
                  w3 = record_call (solve_call planning_success) w2;
                  (ret, res', w4) =
                     handle_results env p' (res\<lparr>d_error_code := code\<rparr>) start_time
                       planning_success parameters w3
              in Done (ret, res', p', w4))"

text \<open>The seeded branch (lines 193-212).\<close>

definition seeded_solve ::
  "Collaborators \<Rightarrow> StompPlanner \<Rightarrow> MotionPlanDetailedResponse \<Rightarrow> real \<Rightarrow> JointTrajectory \<Rightarrow> World
     \<Rightarrow> (bool \<times> MotionPlanDetailedResponse \<times> StompPlanner \<times> World) exec" where
  "seeded_solve env p res start_time seed_traj w =
     (case jointTrajectorytoParameters seed_traj of
        Undefined \<Rightarrow> Undefined
      | Done (_, initial_parameters) \<Rightarrow>
         let config_copy = (stomp_config p)\<lparr>num_timesteps := size_to_int (length (points seed_traj))\<rparr>
         in configure_and_solve env p res start_time config_copy
              (\<lambda>s. stomp_solve_initial env s initial_parameters)
              (SolveInitial initial_parameters) w)"

text \<open>The boundary-value branch (lines 213-234).\<close>

definition boundary_solve ::
  "Collaborators \<Rightarrow> StompPlanner \<Rightarrow> MotionPlanDetailedResponse \<Rightarrow> real \<Rightarrow> World
     \<Rightarrow> (bool \<times> MotionPlanDetailedResponse \<times> StompPlanner \<times> World) exec" where
  "boundary_solve env p res start_time w =
     (case getStartAndGoal env p w of
        Undefined \<Rightarrow> Undefined
      | Done (None, w1) \<Rightarrow> Done (False, res\<lparr>d_error_code := INVALID_MOTION_PLAN\<rparr>, p, w1)
      | Done (Some (start, goal), w1) \<Rightarrow>
         configure_and_solve env p res start_time (stomp_config p)
           (\<lambda>s. stomp_solve_start_goal env s start goal)
           (SolveStartGoal start goal) w1)"

text \<open>The response as initialized by lines 173-176.\<close>

definition init_response :: "MotionPlanDetailedResponse \<Rightarrow> MotionPlanDetailedResponse" where
  "init_response res0 =
     res0\<lparr>d_description := resize1 [] (d_description res0),
          d_processing_time := resize1 0 (d_processing_time res0),
          d_trajectory := resize1 None (d_trajectory res0),
          d_error_code := SUCCESS\<rparr>"

text \<open>The detailed \<^verbatim>\<open>solve\<close> (lines 168-271).\<close>

definition solve_detailed ::
  "Collaborators \<Rightarrow> StompPlanner \<Rightarrow> MotionPlanDetailedResponse \<Rightarrow> World
     \<Rightarrow> (bool \<times> MotionPlanDetailedResponse \<times> StompPlanner \<times> World) exec" where
  "solve_detailed env p res0 w0 =
     (let res = init_response res0;
          (start_time, w) = read_clock env w0;
          (seed_provided, seed_traj) = extractSeedTrajectory (robot_model p) (request p) empty_trajectory
      in if seed_provided then seeded_solve env p res start_time seed_traj w
         else boundary_solve env p res start_time w)"

text \<open>The compact \<^verbatim>\<open>solve\<close> (lines 153-166), on a default-constructed detailed
  response.\<close>

definition default_detailed_response :: MotionPlanDetailedResponse where
  "default_detailed_response =
     \<lparr>d_trajectory = [], d_description = [], d_processing_time = [], d_error_code = UNSET\<rparr>"

definition solve_compact ::
  "Collaborators \<Rightarrow> StompPlanner \<Rightarrow> MotionPlanResponse \<Rightarrow> World
     \<Rightarrow> (bool \<times> MotionPlanResponse \<times> StompPlanner \<times> World) exec" where
  "solve_compact env p res w0 =
     (let (start_time, w) = read_clock env w0
      in case solve_detailed env p default_detailed_response w of
           Undefined \<Rightarrow> Undefined
         | Done (success, detailed_res, p', w1) \<Rightarrow>
            (case d_trajectory detailed_res of
               [] \<Rightarrow> Undefined
             | t # ts \<Rightarrow>
                let (end_time, w2) = read_clock env w1
                in Done (success,
                         res\<lparr>r_trajectory := last (t # ts),
                             r_planning_time := end_time - start_time,
                             r_error_code := d_error_code detailed_res\<rparr>,
                         p', w2)))"

subsection \<open>Cancellation (lines 482-493)\<close>

definition terminate :: "Collaborators \<Rightarrow> StompPlanner \<Rightarrow> World \<Rightarrow> bool \<times> World" where
  "terminate env p w =
     (case stomp p of
        Some s \<Rightarrow>
          if \<not> stomp_cancel env s then (False, record_call (Cancel False) w)
          else (True, record_call (Cancel True) w)
      | None \<Rightarrow> (True, w))"

subsection \<open>Observations\<close>

text \<open>What a caller sees of a detailed solve: the returned flag, the error code, the
  processing times, and the calls made.\<close>

definition observe ::
  "(bool \<times> MotionPlanDetailedResponse \<times> StompPlanner \<times> World) exec
     \<Rightarrow> (bool \<times> MoveItErrorCodes \<times> real list \<times> call list) option" where
  "observe r =
     (case r of
        Undefined \<Rightarrow> None
      | Done (ret, res, p, w) \<Rightarrow> Some (ret, d_error_code res, d_processing_time res, calls w))"

text \<open>The processing times of a detailed solve with the number of clock readings made so
  far, and what a caller sees of a compact solve.\<close>

definition observe_time ::
  "(bool \<times> MotionPlanDetailedResponse \<times> StompPlanner \<times> World) exec \<Rightarrow> (real list \<times> nat) option" where
  "observe_time r =
     (case r of
        Undefined \<Rightarrow> None
      | Done (ret, res, p, w) \<Rightarrow> Some (d_processing_time res, ticks w))"

definition observe_compact ::
  "(bool \<times> MotionPlanResponse \<times> StompPlanner \<times> World) exec
     \<Rightarrow> (bool \<times> MoveItErrorCodes \<times> real) option" where
  "observe_compact r =
     (case r of
        Undefined \<Rightarrow> None
      | Done (ret, res, p, w) \<Rightarrow> Some (ret, r_error_code res, r_planning_time res))"

text \<open>The calls made between two worlds.\<close>

definition new_calls :: "World \<Rightarrow> World \<Rightarrow> call list" where
  "new_calls w w' = drop (length (calls w)) (calls w')"

fun is_optimizer_call :: "call \<Rightarrow> bool" where
  "is_optimizer_call (SetFromIK pose tip attempts timeout ok) = False"
| "is_optimizer_call (Cancel ok) = False"
| "is_optimizer_call c = True"

fun is_solve_success :: "call \<Rightarrow> bool" where
  "is_solve_success (SolveInitial initial ok) = ok"
| "is_solve_success (SolveStartGoal start goal ok) = ok"
| "is_solve_success c = False"

text \<open>The two shapes of a finished solve step, as seen from the clock, the processing
  time and the calls: the optimizer produced no result, or it produced one.\<close>

definition unsolved_outcome ::
  "MotionPlanDetailedResponse \<Rightarrow> World \<Rightarrow> bool \<Rightarrow> MotionPlanDetailedResponse \<Rightarrow> World \<Rightarrow> call list \<Rightarrow> bool"
  where
  "unsolved_outcome res w ret res' w' cs \<longleftrightarrow>
     ret = False \<and> ticks w' = ticks w \<and> d_processing_time res' = d_processing_time res
     \<and> length (d_trajectory res') = length (d_trajectory res)
     \<and> calls w' = calls w @ cs \<and> (\<forall>c \<in> set cs. \<not> is_solve_success c)"

definition solved_outcome ::
  "Collaborators \<Rightarrow> real \<Rightarrow> MotionPlanDetailedResponse \<Rightarrow> World \<Rightarrow> bool \<Rightarrow> MotionPlanDetailedResponse
     \<Rightarrow> World \<Rightarrow> call list \<Rightarrow> bool"
  where
  "solved_outcome env st res w ret res' w' cs \<longleftrightarrow>
     ret = True \<and> ticks w' = Suc (ticks w)
     \<and> d_processing_time res' = (d_processing_time res)[0 := now env (ticks w) - st]
     \<and> length (d_trajectory res') = length (d_trajectory res)
     \<and> calls w' = calls w @ cs \<and> (\<exists>c \<in> set cs. is_solve_success c)"

subsection \<open>A two-joint planning group with stub collaborators\<close>

text \<open>A concrete planner on which the theorems below are exercised: a group of two joints
  with bounds \<open>[-2, 2]\<close>, the default configuration of \<^verbatim>\<open>parseConfig\<close>, a request from
  \<open>[0, 0]\<close> to the joint-space goal \<open>[1, 1]\<close>, and collaborators that always succeed
  except for inverse kinematics and time parameterization.\<close>

definition example_model :: RobotModel where
  "example_model =
     \<lparr>variable_names = [''j1'', ''j2''],
      variable_bounds = (\<lambda>n. (- 2, 2)),
      getActiveJointModelNames = [''j1'', ''j2''],
      getLinkModelNames = [''link1'', ''tool0'']\<rparr>"

definition example_config :: StompConfiguration where
  "example_config =
     \<lparr>control_cost_weight = 0, initialization_method = 1, num_timesteps = 40, delta_t = 1,
      num_iterations = 50, num_iterations_after_valid = 0, max_rollouts = 100,
      num_rollouts = 10, exponentiated_cost_sensitivity = 10, num_dimensions = 2\<rparr>"

definition joint_goal :: "real \<Rightarrow> real \<Rightarrow> Constraints" where
  "joint_goal a b =
     \<lparr>joint_constraints = [\<lparr>joint_name = ''j1'', position = a\<rparr>, \<lparr>joint_name = ''j2'', position = b\<rparr>],
      position_constraints = [], orientation_constraints = []\<rparr>"

definition cartesian_goal :: Constraints where
  "cartesian_goal =
     \<lparr>joint_constraints = [],
      position_constraints =
        [\<lparr>primitive_poses = [\<lparr>pose_position = (1, 2, 3), pose_orientation = (0, 0, 0, 1)\<rparr>]\<rparr>],
      orientation_constraints = [\<lparr>orientation = (0, 1, 0, 0)\<rparr>]\<rparr>"

definition example_request :: MotionPlanRequest where
  "example_request =
     \<lparr>group_name = ''arm'', start_state = [(''j1'', 0), (''j2'', 0)],
      goal_constraints = [joint_goal 1 1], trajectory_constraints = [],
      max_velocity_scaling_factor = 1\<rparr>"

definition valid_scene :: PlanningScene where
  "valid_scene = \<lparr>isPathValid = (\<lambda>t g v. True)\<rparr>"

definition colliding_scene :: PlanningScene where
  "colliding_scene = \<lparr>isPathValid = (\<lambda>t g v. False)\<rparr>"

definition example_planner :: StompPlanner where
  "example_planner =
     \<lparr>planner_group = ''arm'', robot_model = example_model, stomp_config = example_config,
      stomp = Some \<lparr>config = example_config\<rparr>, planning_scene = Some valid_scene,
      request = example_request\<rparr>"

definition state_of_msg :: "RobotStateMsg \<Rightarrow> RobotState" where
  "state_of_msg msg = (\<lambda>n. case map_of msg n of Some v \<Rightarrow> v | None \<Rightarrow> 0)"

definition example_env :: Collaborators where
  "example_env =
     \<lparr>now = (\<lambda>k. 5 * real k),
      robotStateMsgToRobotState = (\<lambda>msg. (True, state_of_msg msg)),
      setFromIK = (\<lambda>st pose tip attempts timeout. None),
      setMotionPlanRequest = (\<lambda>req cfg code. (True, code)),
      stomp_solve_initial = (\<lambda>s initial. (True, initial)),
      stomp_solve_start_goal = (\<lambda>s start goal. (True, \<lparr>mrows = length start, columns = [start, goal]\<rparr>)),
      stomp_cancel = (\<lambda>s. True),
      computeTimeStamps = (\<lambda>traj scale. None)\<rparr>"

definition cartesian_planner :: StompPlanner where
  "cartesian_planner =
     example_planner\<lparr>request := example_request\<lparr>goal_constraints := [cartesian_goal]\<rparr>\<rparr>"

definition fresh_world :: World where
  "fresh_world = \<lparr>ticks = 0, calls = []\<rparr>"

text \<open>Variations of the example: seeds, goals, stale responses and collaborators that fail.\<close>

definition swapped_waypoint :: Constraints where
  "swapped_waypoint =
     \<lparr>joint_constraints = [\<lparr>joint_name = ''j2'', position = 1\<rparr>, \<lparr>joint_name = ''j1'', position = 1\<rparr>],
      position_constraints = [], orientation_constraints = []\<rparr>"

definition seeded_planner :: StompPlanner where
  "seeded_planner =
     example_planner\<lparr>request := example_request
       \<lparr>trajectory_constraints := [joint_goal 0 0, joint_goal (1 / 2) (1 / 2), joint_goal 1 1]\<rparr>\<rparr>"

definition malformed_seed_planner :: StompPlanner where
  "malformed_seed_planner =
     example_planner\<lparr>request := example_request
       \<lparr>trajectory_constraints := [joint_goal 0 0, swapped_waypoint]\<rparr>\<rparr>"

definition no_goal_planner :: StompPlanner where
  "no_goal_planner = example_planner\<lparr>request := example_request\<lparr>goal_constraints := []\<rparr>\<rparr>"

definition out_of_bounds_planner :: StompPlanner where
  "out_of_bounds_planner =
     example_planner\<lparr>request := example_request\<lparr>goal_constraints := [joint_goal 3 1]\<rparr>\<rparr>"

definition partial_goal_planner :: StompPlanner where
  "partial_goal_planner =
     example_planner\<lparr>request := example_request
       \<lparr>start_state := [(''j1'', 1 / 2), (''j2'', 0)],
        goal_constraints :=
          [\<lparr>joint_constraints = [\<lparr>joint_name = ''j2'', position = 1\<rparr>],
            position_constraints = [], orientation_constraints = []\<rparr>]\<rparr>\<rparr>"

definition colliding_planner :: StompPlanner where
  "colliding_planner = example_planner\<lparr>planning_scene := Some colliding_scene\<rparr>"

definition failing_env :: Collaborators where
  "failing_env =
     example_env\<lparr>stomp_solve_start_goal := (\<lambda>s start goal. (False, \<lparr>mrows = 0, columns = []\<rparr>))\<rparr>"

definition unparsed_env :: Collaborators where
  "unparsed_env = example_env\<lparr>robotStateMsgToRobotState := (\<lambda>msg. (False, (\<lambda>n. 0)))\<rparr>"

definition timed_env :: Collaborators where
  "timed_env =
     example_env\<lparr>computeTimeStamps :=
       (\<lambda>traj scale. Some ((trajectory_msg traj)
          \<lparr>points := map (\<lambda>pt. pt\<lparr>time_from_start := 1\<rparr>) (points (trajectory_msg traj))\<rparr>))\<rparr>"

definition example_trajectory :: JointTrajectory where
  "example_trajectory =
     \<lparr>joint_names = [''j1'', ''j2''],
      points = [\<lparr>positions = [0, 1 / 2], velocities = [], accelerations = [], time_from_start = 0\<rparr>,
                \<lparr>positions = [1, 3 / 2], velocities = [], accelerations = [], time_from_start = 0\<rparr>]\<rparr>"

definition stale_response :: MotionPlanDetailedResponse where
  "stale_response = default_detailed_response\<lparr>d_processing_time := [42]\<rparr>"

definition default_response :: MotionPlanResponse where
  "default_response = \<lparr>r_trajectory = None, r_planning_time = 0, r_error_code = UNSET\<rparr>"

section \<open>Properties\<close>

subsection \<open>Auxiliary facts\<close>

lemma copy_positions_known:
  "set names \<subseteq> set (variable_names m) \<Longrightarrow> copy_positions m st names = Some (map st names)"
  by (induction names) (simp_all add: getVariablePosition_def)

lemma new_calls_record_call [simp]: "new_calls w (record_call c w) = [c]"
  by (simp add: new_calls_def record_call_def)

lemma new_calls_same [simp]: "new_calls w w = []"
  by (simp add: new_calls_def)

lemma IK_TIMEOUT_zero: "IK_TIMEOUT = 0"
  by (simp add: IK_TIMEOUT_def double_to_int_def)

lemma size_to_int_small: "n < 2 ^ 31 \<Longrightarrow> size_to_int n = int n"
  unfolding size_to_int_def
  by (simp add: signed_of_nat signed_take_bit_int_eq_self)

lemma seed_joint_loop_result:
  "j + length cs \<le> length names \<Longrightarrow>
   seed_joint_loop names cs j pt =
     (if map joint_name cs = take (length cs) (drop j names)
      then Some (pt\<lparr>positions := positions pt @ map position cs\<rparr>) else None)"
proof (induction cs arbitrary: j pt)
  case Nil
  then show ?case by simp
next
  case (Cons c cs)
  from Cons.prems have j: "j < length names" and rest: "Suc j + length cs \<le> length names"
    by simp_all
  have split: "take (Suc (length cs)) (drop j names) = names ! j # take (length cs) (drop (Suc j) names)"
    using j by (simp add: Cons_nth_drop_Suc [symmetric])
  show ?case
    using Cons.IH [OF rest] split by auto
qed

lemma seed_waypoint_step:
  "seed_waypoint_loop names (wp # wps) seed =
     (if map joint_name (joint_constraints wp) = names
      then seed_waypoint_loop names wps
             (seed\<lparr>points := points seed @ [empty_point\<lparr>positions := map position (joint_constraints wp)\<rparr>]\<rparr>)
      else (False, seed))"
proof (cases "length (joint_constraints wp) = length names")
  case True
  then show ?thesis
    using seed_joint_loop_result [of 0 "joint_constraints wp" names empty_point]
    by (auto simp add: empty_point_def)
next
  case False
  then have "map joint_name (joint_constraints wp) \<noteq> names"
    by (metis length_map)
  with False show ?thesis by simp
qed

lemma seed_waypoint_loop_accepts:
  "\<forall>wp \<in> set wps. map joint_name (joint_constraints wp) = names \<Longrightarrow>
   seed_waypoint_loop names wps seed =
     (True, seed\<lparr>points := points seed
               @ map (\<lambda>wp. empty_point\<lparr>positions := map position (joint_constraints wp)\<rparr>) wps\<rparr>)"
proof (induction wps arbitrary: seed)
  case Nil
  then show ?case by simp
next
  case (Cons wp wps)
  then show ?case
    unfolding seed_waypoint_step by simp
qed

lemma seed_waypoint_loop_rejects:
  "\<exists>wp \<in> set wps. map joint_name (joint_constraints wp) \<noteq> names \<Longrightarrow>
   fst (seed_waypoint_loop names wps seed) = False"
proof (induction wps arbitrary: seed)
  case Nil
  then show ?case by simp
next
  case (Cons wp wps)
  then show ?case
    unfolding seed_waypoint_step by auto
qed

lemma extractSeedTrajectory_accepts:
  assumes "trajectory_constraints req \<noteq> []"
    and "\<forall>wp \<in> set (trajectory_constraints req).
           map joint_name (joint_constraints wp) = getActiveJointModelNames m"
  shows "extractSeedTrajectory m req seed =
     (True, \<lparr>joint_names = getActiveJointModelNames m,
             points = points seed
               @ map (\<lambda>wp. empty_point\<lparr>positions := map position (joint_constraints wp)\<rparr>)
                   (trajectory_constraints req)\<rparr>)"
  using assms
  by (simp add: extractSeedTrajectory_def Let_def seed_waypoint_loop_accepts)

lemma extractSeedTrajectory_rejects:
  assumes "\<exists>wp \<in> set (trajectory_constraints req).
           map joint_name (joint_constraints wp) \<noteq> getActiveJointModelNames m"
  shows "fst (extractSeedTrajectory m req seed) = False"
  using seed_waypoint_loop_rejects [OF assms, of seed]
  by (auto simp add: extractSeedTrajectory_def Let_def split: prod.splits bool.splits)

lemma extractSeedTrajectory_True:
  assumes "extractSeedTrajectory m req seed = (True, seed')"
  shows "trajectory_constraints req \<noteq> []
    \<and> (\<forall>wp \<in> set (trajectory_constraints req).
           map joint_name (joint_constraints wp) = getActiveJointModelNames m)"
proof -
  have "trajectory_constraints req \<noteq> []"
    using assms by (auto simp add: extractSeedTrajectory_def)
  moreover have "\<forall>wp \<in> set (trajectory_constraints req).
           map joint_name (joint_constraints wp) = getActiveJointModelNames m"
  proof (rule ccontr)
    assume "\<not> ?thesis"
    then have "fst (extractSeedTrajectory m req seed) = False"
      by (intro extractSeedTrajectory_rejects) blast
    with assms show False by simp
  qed
  ultimately show ?thesis by simp
qed

lemma jointTrajectorytoParameters_wellformed:
  assumes "\<forall>pt \<in> set (points traj). length (positions pt) = length (joint_names traj)"
  shows "jointTrajectorytoParameters traj =
           Done (True, \<lparr>mrows = length (joint_names traj), columns = map positions (points traj)\<rparr>)"
proof -
  have cols: "map (\<lambda>step. map (\<lambda>joint. positions (points traj ! step) ! joint) [0..<length (joint_names traj)])
                [0..<length (points traj)] = map positions (points traj)"
    using assms by (auto intro!: nth_equalityI)
  show ?thesis
    unfolding jointTrajectorytoParameters_def Let_def
    using assms cols by simp
qed

lemma fill_trajectory_positions:
  assumes "\<forall>c \<in> set (columns parameters). length c = mrows parameters"
  shows "map positions (points (fill_trajectory p parameters)) = columns parameters"
  using assms by (auto simp add: fill_trajectory_def mcols_def coeff_def intro!: nth_equalityI)

lemma calls_record_call [simp]: "calls (record_call c w) = calls w @ [c]"
  by (simp add: record_call_def)

lemma ticks_record_call [simp]: "ticks (record_call c w) = ticks w"
  by (simp add: record_call_def)

lemma new_calls_append [simp]: "calls w' = calls w @ cs \<Longrightarrow> new_calls w w' = cs"
  by (simp add: new_calls_def)

lemma length_resize1 [simp]: "length (resize1 d xs) = 1"
  by (simp add: resize1_def split: list.splits)

lemma update_singleton: "length xs = 1 \<Longrightarrow> xs[0 := v] = [v]"
  by (cases xs) simp_all

lemma handle_results_failure:
  "handle_results env p res st False M w = (False, res\<lparr>d_error_code := PLANNING_FAILED\<rparr>, w)"
  by (simp add: handle_results_def)

lemma handle_results_success:
  "\<exists>res'. handle_results env p res st True M w = (True, res', w\<lparr>ticks := Suc (ticks w)\<rparr>)
      \<and> d_processing_time res' = (d_processing_time res)[0 := now env (ticks w) - st]
      \<and> length (d_trajectory res') = length (d_trajectory res)
      \<and> d_error_code res' =
          (case planning_scene p of
             None \<Rightarrow> d_error_code res
           | Some scene \<Rightarrow>
              if isPathValid scene
                   \<lparr>reference_state = snd (robotStateMsgToRobotState env (start_state (request p))),
                    trajectory_msg = snd (parametersToJointTrajectory env p M)\<rparr> (planner_group p) True
              then d_error_code res else PLANNING_FAILED)"
  by (simp add: handle_results_def parametersToJointTrajectory_def read_clock_def Let_def
      split: option.splits prod.splits)

lemma getStartAndGoal_world:
  assumes "getStartAndGoal env p w = Done (r, w')"
  shows "ticks w' = ticks w \<and> (\<exists>cs. calls w' = calls w @ cs \<and> (\<forall>c \<in> set cs. \<not> is_optimizer_call c))"
  using assms
  by (auto simp add: getStartAndGoal_def Let_def
      split: list.splits prod.splits if_splits option.splits)

lemma configure_and_solve_unbound:
  assumes "\<not> fst (setMotionPlanRequest env (request p) cfg (d_error_code res))"
  shows "configure_and_solve env p res st cfg run sc w =
           Done (False, res\<lparr>d_error_code := FAILURE\<rparr>, p, record_call (SetMotionPlanRequest cfg False) w)"
proof -
  obtain b code where "setMotionPlanRequest env (request p) cfg (d_error_code res) = (b, code)"
    by (cases "setMotionPlanRequest env (request p) cfg (d_error_code res)")
  with assms show ?thesis
    by (simp add: configure_and_solve_def)
qed

lemma configure_and_solve_failed:
  assumes "fst (setMotionPlanRequest env (request p) cfg (d_error_code res))"
    and "stomp p = Some s"
    and "\<not> fst (run (s\<lparr>config := cfg\<rparr>))"
  shows "configure_and_solve env p res st cfg run sc w =
           Done (False, res\<lparr>d_error_code := PLANNING_FAILED\<rparr>, p\<lparr>stomp := Some (s\<lparr>config := cfg\<rparr>)\<rparr>,
                 record_call (sc False) (record_call (SetConfig cfg)
                   (record_call (SetMotionPlanRequest cfg True) w)))"
proof -
  obtain code where bound: "setMotionPlanRequest env (request p) cfg (d_error_code res) = (True, code)"
    using assms(1) by (cases "setMotionPlanRequest env (request p) cfg (d_error_code res)") auto
  obtain M where ran: "run (s\<lparr>config := cfg\<rparr>) = (False, M)"
    using assms(3) by (cases "run (s\<lparr>config := cfg\<rparr>)") auto
  show ?thesis
    using bound ran assms(2)
    by (simp add: configure_and_solve_def Let_def handle_results_failure)
qed

lemma configure_and_solve_solved:
  assumes "fst (setMotionPlanRequest env (request p) cfg (d_error_code res))"
    and "stomp p = Some s"
    and "fst (run (s\<lparr>config := cfg\<rparr>))"
  shows "\<exists>res' w'. configure_and_solve env p res st cfg run sc w =
           Done (True, res', p\<lparr>stomp := Some (s\<lparr>config := cfg\<rparr>)\<rparr>, w')
         \<and> calls w' = calls w @ [SetMotionPlanRequest cfg True, SetConfig cfg, sc True]
         \<and> ticks w' = Suc (ticks w)
         \<and> d_processing_time res' = (d_processing_time res)[0 := now env (ticks w) - st]
         \<and> length (d_trajectory res') = length (d_trajectory res)"
proof -
  obtain code where bound: "setMotionPlanRequest env (request p) cfg (d_error_code res) = (True, code)"
    using assms(1) by (cases "setMotionPlanRequest env (request p) cfg (d_error_code res)") auto
  obtain M where ran: "run (s\<lparr>config := cfg\<rparr>) = (True, M)"
    using assms(3) by (cases "run (s\<lparr>config := cfg\<rparr>)") auto
  let ?w3 = "record_call (sc True) (record_call (SetConfig cfg)
                   (record_call (SetMotionPlanRequest cfg True) w))"
  let ?p' = "p\<lparr>stomp := Some (s\<lparr>config := cfg\<rparr>)\<rparr>"
  from handle_results_success [of env ?p' "res\<lparr>d_error_code := code\<rparr>" st M ?w3]
  obtain res' where h: "handle_results env ?p' (res\<lparr>d_error_code := code\<rparr>) st True M ?w3
        = (True, res', ?w3\<lparr>ticks := Suc (ticks ?w3)\<rparr>)"
    and t: "d_processing_time res' = (d_processing_time (res\<lparr>d_error_code := code\<rparr>))[0 := now env (ticks ?w3) - st]"
    and l: "length (d_trajectory res') = length (d_trajectory (res\<lparr>d_error_code := code\<rparr>))"
    by blast
  have "configure_and_solve env p res st cfg run sc w = Done (True, res', ?p', ?w3\<lparr>ticks := Suc (ticks ?w3)\<rparr>)"
    using bound ran assms(2) h by (simp add: configure_and_solve_def Let_def)
  with t l show ?thesis by simp
qed

text \<open>Every way a configure-and-solve step can end.\<close>

lemma configure_and_solve_cases:
  assumes "configure_and_solve env p res st cfg run sc w = Done (ret, res', p', w')"
  shows "(ret = False \<and> p' = p \<and> res' = res\<lparr>d_error_code := FAILURE\<rparr>
            \<and> ticks w' = ticks w \<and> calls w' = calls w @ [SetMotionPlanRequest cfg False])
       \<or> (\<exists>s. stomp p = Some s \<and> ret = False \<and> p' = p\<lparr>stomp := Some (s\<lparr>config := cfg\<rparr>)\<rparr>
            \<and> res' = res\<lparr>d_error_code := PLANNING_FAILED\<rparr>
            \<and> ticks w' = ticks w
            \<and> calls w' = calls w @ [SetMotionPlanRequest cfg True, SetConfig cfg, sc False])
       \<or> (\<exists>s. stomp p = Some s \<and> ret = True \<and> p' = p\<lparr>stomp := Some (s\<lparr>config := cfg\<rparr>)\<rparr>
            \<and> ticks w' = Suc (ticks w)
            \<and> d_processing_time res' = (d_processing_time res)[0 := now env (ticks w) - st]
            \<and> length (d_trajectory res') = length (d_trajectory res)
            \<and> calls w' = calls w @ [SetMotionPlanRequest cfg True, SetConfig cfg, sc True])"
proof (cases "fst (setMotionPlanRequest env (request p) cfg (d_error_code res))")
  case False
  from configure_and_solve_unbound [OF False, of st run sc w] assms
  show ?thesis by simp
next
  case bound: True
  show ?thesis
  proof (cases "stomp p")
    case None
    obtain code where "setMotionPlanRequest env (request p) cfg (d_error_code res) = (True, code)"
      using bound by (cases "setMotionPlanRequest env (request p) cfg (d_error_code res)") auto
    with None assms show ?thesis
      by (simp add: configure_and_solve_def)
  next
    case (Some s)
    show ?thesis
    proof (cases "fst (run (s\<lparr>config := cfg\<rparr>))")
      case False
      from configure_and_solve_failed [where run = run and s = s and sc = sc and st = st and w = w, OF bound Some False]
        assms Some
      show ?thesis by simp
    next
      case True
      from configure_and_solve_solved [where run = run and s = s and sc = sc and st = st and w = w, OF bound Some True]
        assms Some
      show ?thesis by auto
    qed
  qed
qed

lemma solve_detailed_seeded:
  assumes "extractSeedTrajectory (robot_model p) (request p) empty_trajectory = (True, seed)"
  shows "solve_detailed env p res0 w0 =
           seeded_solve env p (init_response res0) (now env (ticks w0)) seed (w0\<lparr>ticks := Suc (ticks w0)\<rparr>)"
  using assms by (simp add: solve_detailed_def read_clock_def)

lemma solve_detailed_boundary:
  assumes "fst (extractSeedTrajectory (robot_model p) (request p) empty_trajectory) = False"
  shows "solve_detailed env p res0 w0 =
           boundary_solve env p (init_response res0) (now env (ticks w0)) (w0\<lparr>ticks := Suc (ticks w0)\<rparr>)"
proof -
  obtain b seed where "extractSeedTrajectory (robot_model p) (request p) empty_trajectory = (b, seed)"
    by (cases "extractSeedTrajectory (robot_model p) (request p) empty_trajectory")
  with assms show ?thesis
    by (simp add: solve_detailed_def read_clock_def)
qed

lemma solve_success_is_optimizer_call: "is_solve_success c \<Longrightarrow> is_optimizer_call c"
  by (cases c) simp_all

lemma init_response_fields [simp]:
  "d_processing_time (init_response res0) = resize1 0 (d_processing_time res0)"
  "length (d_trajectory (init_response res0)) = 1"
  "d_error_code (init_response res0) = SUCCESS"
  by (simp_all add: init_response_def)

lemma configure_and_solve_outcome:
  assumes run: "configure_and_solve env p res st cfg run sc w = Done (ret, res', p', w')"
    and sc: "\<And>ok. is_solve_success (sc ok) = ok"
  shows "\<exists>cs. unsolved_outcome res w ret res' w' cs \<or> solved_outcome env st res w ret res' w' cs"
proof -
  from configure_and_solve_cases [OF run]
  consider (unbound) "ret = False" "res' = res\<lparr>d_error_code := FAILURE\<rparr>" "ticks w' = ticks w"
        "calls w' = calls w @ [SetMotionPlanRequest cfg False]"
    | (failed) "ret = False" "res' = res\<lparr>d_error_code := PLANNING_FAILED\<rparr>" "ticks w' = ticks w"
        "calls w' = calls w @ [SetMotionPlanRequest cfg True, SetConfig cfg, sc False]"
    | (solved) "ret = True" "ticks w' = Suc (ticks w)"
        "d_processing_time res' = (d_processing_time res)[0 := now env (ticks w) - st]"
        "length (d_trajectory res') = length (d_trajectory res)"
        "calls w' = calls w @ [SetMotionPlanRequest cfg True, SetConfig cfg, sc True]"
    by blast
  then show ?thesis
  proof cases
    case unbound
    then have "unsolved_outcome res w ret res' w' [SetMotionPlanRequest cfg False]"
      by (simp add: unsolved_outcome_def)
    then show ?thesis by blast
  next
    case failed
    then have "unsolved_outcome res w ret res' w' [SetMotionPlanRequest cfg True, SetConfig cfg, sc False]"
      by (simp add: unsolved_outcome_def sc)
    then show ?thesis by blast
  next
    case solved
    then have "solved_outcome env st res w ret res' w' [SetMotionPlanRequest cfg True, SetConfig cfg, sc True]"
      by (simp add: solved_outcome_def sc)
    then show ?thesis by blast
  qed
qed

lemma boundary_solve_outcome:
  assumes run: "boundary_solve env p res st w = Done (ret, res', p', w')"
  shows "\<exists>cs. (unsolved_outcome res w ret res' w' cs \<or> solved_outcome env st res w ret res' w' cs)
           \<and> (\<forall>c \<in> set cs. \<forall>M ok. c \<noteq> SolveInitial M ok)"
proof (cases "getStartAndGoal env p w")
  case Undefined
  with run show ?thesis by (simp add: boundary_solve_def)
next
  case (Done r)
  obtain sg w1 where r: "r = (sg, w1)" by (cases r)
  from getStartAndGoal_world [of env p w sg w1] Done r
  obtain cs1 where w1: "ticks w1 = ticks w" "calls w1 = calls w @ cs1"
    and quiet: "\<forall>c \<in> set cs1. \<not> is_optimizer_call c"
    by auto
  have quiet_success: "\<forall>c \<in> set cs1. \<not> is_solve_success c"
    using quiet solve_success_is_optimizer_call by blast
  have quiet_seeded: "\<forall>c \<in> set cs1. \<forall>M ok. c \<noteq> SolveInitial M ok"
    using quiet by auto
  show ?thesis
  proof (cases sg)
    case None
    with run Done r have "ret = False" "res' = res\<lparr>d_error_code := INVALID_MOTION_PLAN\<rparr>" "w' = w1"
      by (simp_all add: boundary_solve_def)
    with w1 quiet_success have "unsolved_outcome res w ret res' w' cs1"
      by (simp add: unsolved_outcome_def)
    with quiet_seeded show ?thesis by blast
  next
    case (Some pair)
    obtain start goal where pair: "pair = (start, goal)" by (cases pair)
    from run Done r Some pair
    have step: "configure_and_solve env p res st (stomp_config p)
                  (\<lambda>s. stomp_solve_start_goal env s start goal) (SolveStartGoal start goal) w1
                = Done (ret, res', p', w')"
      by (simp add: boundary_solve_def)
    from configure_and_solve_cases [OF step]
    obtain cs2 where cs2: "calls w' = calls w1 @ cs2" "\<forall>c \<in> set cs2. \<forall>M ok. c \<noteq> SolveInitial M ok"
      by (elim disjE exE conjE) simp_all
    from configure_and_solve_outcome [OF step]
    obtain cs3 where "unsolved_outcome res w1 ret res' w' cs3 \<or> solved_outcome env st res w1 ret res' w' cs3"
      by auto
    moreover have "calls w' = calls w1 @ cs3 \<Longrightarrow> cs3 = cs2"
      using cs2(1) by simp
    ultimately have "unsolved_outcome res w ret res' w' (cs1 @ cs2)
                   \<or> solved_outcome env st res w ret res' w' (cs1 @ cs2)"
      using w1 quiet_success
      by (auto simp add: unsolved_outcome_def solved_outcome_def)
    moreover have "\<forall>c \<in> set (cs1 @ cs2). \<forall>M ok. c \<noteq> SolveInitial M ok"
      using quiet_seeded cs2(2) by auto
    ultimately show ?thesis by blast
  qed
qed

lemma seeded_solve_outcome:
  assumes run: "seeded_solve env p res st seed w = Done (ret, res', p', w')"
  shows "\<exists>cs. unsolved_outcome res w ret res' w' cs \<or> solved_outcome env st res w ret res' w' cs"
proof (cases "jointTrajectorytoParameters seed")
  case Undefined
  with run show ?thesis by (simp add: seeded_solve_def)
next
  case (Done r)
  obtain b M where r: "r = (b, M)" by (cases r)
  from run Done r
  have step: "configure_and_solve env p res st
                ((stomp_config p)\<lparr>num_timesteps := size_to_int (length (points seed))\<rparr>)
                (\<lambda>s. stomp_solve_initial env s M) (SolveInitial M) w
              = Done (ret, res', p', w')"
    by (simp add: seeded_solve_def)
  from configure_and_solve_outcome [OF step] show ?thesis by simp
qed

lemma solve_detailed_outcome:
  assumes run: "solve_detailed env p res0 w0 = Done (ret, res', p', w')"
  shows "\<exists>cs. unsolved_outcome (init_response res0) (w0\<lparr>ticks := Suc (ticks w0)\<rparr>) ret res' w' cs
            \<or> solved_outcome env (now env (ticks w0)) (init_response res0)
                 (w0\<lparr>ticks := Suc (ticks w0)\<rparr>) ret res' w' cs"
proof -
  obtain b seed where ex: "extractSeedTrajectory (robot_model p) (request p) empty_trajectory = (b, seed)"
    by (cases "extractSeedTrajectory (robot_model p) (request p) empty_trajectory")
  show ?thesis
  proof (cases b)
    case True
    with ex run seeded_solve_outcome show ?thesis
      by (simp add: solve_detailed_seeded)
  next
    case False
    with ex have "fst (extractSeedTrajectory (robot_model p) (request p) empty_trajectory) = False"
      by simp
    from run [unfolded solve_detailed_boundary [OF this]] boundary_solve_outcome
    show ?thesis by blast
  qed
qed

lemmas example_defs =
  example_env_def example_planner_def example_model_def example_request_def example_config_def
  joint_goal_def cartesian_goal_def valid_scene_def colliding_scene_def fresh_world_def
  default_detailed_response_def state_of_msg_def cartesian_planner_def swapped_waypoint_def
  seeded_planner_def malformed_seed_planner_def no_goal_planner_def out_of_bounds_planner_def
  colliding_planner_def partial_goal_planner_def failing_env_def unparsed_env_def timed_env_def example_trajectory_def
  stale_response_def default_response_def

lemmas solve_defs =
  solve_detailed_def boundary_solve_def seeded_solve_def configure_and_solve_def handle_results_def
  getStartAndGoal_def extractSeedTrajectory_def parametersToJointTrajectory_def fill_trajectory_def
  jointTrajectorytoParameters_def init_response_def resize1_def read_clock_def record_call_def
  enforceBounds_def clamp_def getVariablePosition_def setVariablePosition_def observe_def
  mcols_def coeff_def empty_trajectory_def empty_point_def observe_time_def observe_compact_def
  solve_compact_def

lemma clamp_within: "fst b \<le> snd b \<Longrightarrow> fst b \<le> clamp b x \<and> clamp b x \<le> snd b"
  by (auto simp add: clamp_def)

lemma clamp_idem: "clamp b (clamp b x) = clamp b x"
  by (auto simp add: clamp_def max_def min_def)

lemma set_goal_positions_known:
  "\<forall>c \<in> set jcs. joint_name c \<in> set (variable_names m) \<Longrightarrow>
   set_goal_positions m st jcs =
     Some (\<lambda>n. case map_of (rev (map (\<lambda>c. (joint_name c, position c)) jcs)) n of
                  Some v \<Rightarrow> v | None \<Rightarrow> st n)"
proof (induction jcs arbitrary: st)
  case Nil
  then show ?case by simp
next
  case (Cons jc jcs)
  then show ?case
    by (auto simp add: setVariablePosition_def map_add_def fun_eq_iff split: option.splits)
qed

subsection \<open>Time parameterization is best effort\<close>

text \<open>
  Claim C6.  \<^verbatim>\<open>parametersToJointTrajectory\<close> returns true for every parameter matrix,
  whether or not \<^verbatim>\<open>computeTimeStamps\<close> succeeds.  When time parameterization fails, the
  output is the untimed trajectory: one point per column, with zero-filled velocities and
  accelerations and a zero time from start.
\<close>

theorem parametersToJointTrajectory_never_fails:
  "fst (parametersToJointTrajectory env p parameters) = True
   \<and> (computeTimeStamps env
         \<lparr>reference_state = snd (robotStateMsgToRobotState env (start_state (request p))),
          trajectory_msg = fill_trajectory p parameters\<rparr>
         (max_velocity_scaling_factor (request p)) = None
       \<longrightarrow> snd (parametersToJointTrajectory env p parameters) = fill_trajectory p parameters
           \<and> length (points (fill_trajectory p parameters)) = mcols parameters
           \<and> (\<forall>pt \<in> set (points (fill_trajectory p parameters)).
                 velocities pt = replicate (mrows parameters) 0
                 \<and> accelerations pt = replicate (mrows parameters) 0
                 \<and> time_from_start pt = 0))"
  by (auto simp add: parametersToJointTrajectory_def fill_trajectory_def Let_def split: option.splits)

theorem parametersToJointTrajectory_never_fails_witness:
  "fst (parametersToJointTrajectory example_env example_planner \<lparr>mrows = 2, columns = [[0, 0], [1, 1]]\<rparr>) = True
   \<and> snd (parametersToJointTrajectory example_env example_planner \<lparr>mrows = 2, columns = [[0, 0], [1, 1]]\<rparr>)
       = \<lparr>joint_names = [''j1'', ''j2''],
          points = [\<lparr>positions = [0, 0], velocities = [0, 0], accelerations = [0, 0], time_from_start = 0\<rparr>,
                    \<lparr>positions = [1, 1], velocities = [0, 0], accelerations = [0, 0], time_from_start = 0\<rparr>]\<rparr>"
proof -
  have failed: "computeTimeStamps example_env
         \<lparr>reference_state = snd (robotStateMsgToRobotState example_env (start_state (request example_planner))),
          trajectory_msg = fill_trajectory example_planner \<lparr>mrows = 2, columns = [[0, 0], [1, 1]]\<rparr>\<rparr>
         (max_velocity_scaling_factor (request example_planner)) = None"
    by (simp add: example_env_def)
  have filled: "fill_trajectory example_planner \<lparr>mrows = 2, columns = [[0, 0], [1, 1]]\<rparr>
       = \<lparr>joint_names = [''j1'', ''j2''],
          points = [\<lparr>positions = [0, 0], velocities = [0, 0], accelerations = [0, 0], time_from_start = 0\<rparr>,
                    \<lparr>positions = [1, 1], velocities = [0, 0], accelerations = [0, 0], time_from_start = 0\<rparr>]\<rparr>"
    by (simp add: fill_trajectory_def example_planner_def example_model_def mcols_def coeff_def
        upt_rec numeral_2_eq_2)
  note claim = parametersToJointTrajectory_never_fails
         [of example_env example_planner "\<lparr>mrows = 2, columns = [[0, 0], [1, 1]]\<rparr>"]
  from claim have flag: "fst (parametersToJointTrajectory example_env example_planner
         \<lparr>mrows = 2, columns = [[0, 0], [1, 1]]\<rparr>) = True"
    by (rule conjunct1)
  from claim failed have "snd (parametersToJointTrajectory example_env example_planner
         \<lparr>mrows = 2, columns = [[0, 0], [1, 1]]\<rparr>)
       = fill_trajectory example_planner \<lparr>mrows = 2, columns = [[0, 0], [1, 1]]\<rparr>"
    by blast
  with flag filled show ?thesis by (simp only:)
qed

subsection \<open>Cancellation\<close>

text \<open>
  Claim C8, as the code has it.  \<^verbatim>\<open>terminate\<close> returns true when no optimizer instance
  exists (the guard \<^verbatim>\<open>if(stomp_)\<close> skips the cancellation and line 492 returns true);
  when an instance exists it returns exactly what the optimizer's \<^verbatim>\<open>cancel()\<close> returns.
\<close>

theorem terminate_result:
  "fst (terminate env p w) = (case stomp p of None \<Rightarrow> True | Some s \<Rightarrow> stomp_cancel env s)"
  by (simp add: terminate_def split: option.splits)

theorem terminate_result_witness:
  "fst (terminate example_env example_planner fresh_world) = True
   \<and> fst (terminate (example_env\<lparr>stomp_cancel := (\<lambda>s. False)\<rparr>) example_planner fresh_world) = False"
  using terminate_result [of example_env example_planner fresh_world]
        terminate_result [of "example_env\<lparr>stomp_cancel := (\<lambda>s. False)\<rparr>" example_planner fresh_world]
  by (simp add: example_env_def example_planner_def)

text \<open>Claim C8 as stated asks for failure when no optimizer instance exists; a planner
  whose handle is null returns true.\<close>

theorem terminate_without_optimizer_counterexample:
  "stomp (example_planner\<lparr>stomp := None\<rparr>) = None
   \<and> fst (terminate example_env (example_planner\<lparr>stomp := None\<rparr>) fresh_world) \<noteq> False"
  by (simp add: terminate_def)

subsection \<open>The arguments of the inverse kinematics query\<close>

text \<open>
  Claim C10.  \<^verbatim>\<open>IK_TIMEOUT\<close> is an \<^verbatim>\<open>int\<close> initialized from 0.05, which truncates to
  0.  For every Cartesian goal (no joint constraints in the first goal constraint set, a
  position constraint with a region pose and an orientation constraint), with a start
  state that parses, \<^verbatim>\<open>getStartAndGoal\<close> returns and makes exactly one inverse
  kinematics query, for the last link of the group, with 10 attempts and a timeout of 0
  seconds, not 0.05.
\<close>

theorem cartesian_goal_ik_arguments:
  assumes links: "getLinkModelNames (robot_model p) \<noteq> []"
    and parsed: "fst (robotStateMsgToRobotState env (start_state (request p)))"
    and known: "set (getActiveJointModelNames (robot_model p)) \<subseteq> set (variable_names (robot_model p))"
    and goal: "goal_constraints (request p) = gc # gcs"
    and cartesian: "joint_constraints gc = []"
    and pos: "position_constraints gc = pc # pcs"
    and region: "primitive_poses pc = rp # rps"
    and orient: "orientation_constraints gc = oc # ocs"
  shows "IK_ATTEMPTS = 10 \<and> IK_TIMEOUT = 0 \<and> real_of_int IK_TIMEOUT \<noteq> 0.05
    \<and> (\<exists>r w'. getStartAndGoal env p w = Done (r, w')
          \<and> new_calls w w' =
              [SetFromIK \<lparr>pose_position = pose_position rp, pose_orientation = orientation oc\<rparr>
                 (last (getLinkModelNames (robot_model p))) 10 0
                 (setFromIK env
                    (enforceBounds (robot_model p) (snd (robotStateMsgToRobotState env (start_state (request p)))))
                    \<lparr>pose_position = pose_position rp, pose_orientation = orientation oc\<rparr>
                    (last (getLinkModelNames (robot_model p))) 10 0 \<noteq> None)])"
proof -
  obtain l ls where l: "getLinkModelNames (robot_model p) = l # ls"
    using links by (cases "getLinkModelNames (robot_model p)") auto
  obtain b st where st: "robotStateMsgToRobotState env (start_state (request p)) = (b, st)"
    by (cases "robotStateMsgToRobotState env (start_state (request p))")
  with parsed have b: "b" by simp
  show ?thesis
    using l st b goal cartesian pos region orient
    by (simp add: getStartAndGoal_def Let_def copy_positions_known [OF known] IK_TIMEOUT_zero
        IK_ATTEMPTS_def split: option.splits)
qed

theorem cartesian_goal_ik_arguments_witness:
  "getLinkModelNames (robot_model cartesian_planner) \<noteq> []
   \<and> fst (robotStateMsgToRobotState example_env (start_state (request cartesian_planner)))
   \<and> goal_constraints (request cartesian_planner) = [cartesian_goal]
   \<and> joint_constraints cartesian_goal = []
   \<and> (\<exists>r w'. getStartAndGoal example_env cartesian_planner fresh_world = Done (r, w')
         \<and> new_calls fresh_world w' =
             [SetFromIK \<lparr>pose_position = (1, 2, 3), pose_orientation = (0, 1, 0, 0)\<rparr> ''tool0'' 10 0 False])"
proof -
  have links: "getLinkModelNames (robot_model cartesian_planner) \<noteq> []"
    by (simp add: cartesian_planner_def example_planner_def example_model_def)
  have parsed: "fst (robotStateMsgToRobotState example_env (start_state (request cartesian_planner)))"
    by (simp add: example_env_def)
  have known: "set (getActiveJointModelNames (robot_model cartesian_planner))
                 \<subseteq> set (variable_names (robot_model cartesian_planner))"
    by (simp add: cartesian_planner_def example_planner_def example_model_def)
  have goal: "goal_constraints (request cartesian_planner) = cartesian_goal # []"
    by (simp add: cartesian_planner_def)
  have cartesian: "joint_constraints cartesian_goal = []"
    by (simp add: cartesian_goal_def)
  have pos: "position_constraints cartesian_goal
               = \<lparr>primitive_poses = [\<lparr>pose_position = (1, 2, 3), pose_orientation = (0, 0, 0, 1)\<rparr>]\<rparr> # []"
    by (simp add: cartesian_goal_def)
  have region: "primitive_poses \<lparr>primitive_poses = [\<lparr>pose_position = (1, 2, 3), pose_orientation = (0, 0, 0, 1)\<rparr>]\<rparr>
               = \<lparr>pose_position = (1, 2, 3), pose_orientation = (0, 0, 0, 1)\<rparr> # []"
    by simp
  have orient: "orientation_constraints cartesian_goal = \<lparr>orientation = (0, 1, 0, 0)\<rparr> # []"
    by (simp add: cartesian_goal_def)
  have tool: "last (getLinkModelNames (robot_model cartesian_planner)) = ''tool0''"
    by (simp add: cartesian_planner_def example_planner_def example_model_def)
  have ik: "setFromIK example_env st pose tip attempts timeout = None" for st pose tip attempts timeout
    by (simp add: example_env_def)
  from cartesian_goal_ik_arguments [OF links parsed known goal cartesian pos region orient, of fresh_world]
  have "\<exists>r w'. getStartAndGoal example_env cartesian_planner fresh_world = Done (r, w')
         \<and> new_calls fresh_world w' =
             [SetFromIK \<lparr>pose_position = (1, 2, 3), pose_orientation = (0, 1, 0, 0)\<rparr> ''tool0'' 10 0 False]"
    by (simp add: tool ik IK_ATTEMPTS_def)
  with links parsed goal cartesian show ?thesis by simp
qed

subsection \<open>Lossless structural conversion\<close>

text \<open>
  Claim C2.  For a joint trajectory whose every point holds one position per joint name,
  \<^verbatim>\<open>jointTrajectorytoParameters\<close> succeeds with a matrix of one row per joint and one
  column per point, and converting that matrix back reproduces the position values of
  every point: always for the structural conversion (lines 277-289), and for the whole of
  \<^verbatim>\<open>parametersToJointTrajectory\<close> with a time parameterizer that, as the spec describes
  it, assigns velocities and timestamps to the path it is given and leaves its positions.
\<close>

theorem trajectory_roundtrip:
  assumes shape: "\<forall>pt \<in> set (points traj). length (positions pt) = length (joint_names traj)"
    and timing: "\<forall>rt timed. computeTimeStamps env rt (max_velocity_scaling_factor (request p)) = Some timed
                   \<longrightarrow> map positions (points timed) = map positions (points (trajectory_msg rt))"
  shows "\<exists>parameters. jointTrajectorytoParameters traj = Done (True, parameters)
           \<and> mrows parameters = length (joint_names traj)
           \<and> mcols parameters = length (points traj)
           \<and> map positions (points (fill_trajectory p parameters)) = map positions (points traj)
           \<and> map positions (points (snd (parametersToJointTrajectory env p parameters)))
               = map positions (points traj)"
proof -
  let ?M = "\<lparr>mrows = length (joint_names traj), columns = map positions (points traj)\<rparr>"
  have conv: "jointTrajectorytoParameters traj = Done (True, ?M)"
    using shape by (rule jointTrajectorytoParameters_wellformed)
  have filled: "map positions (points (fill_trajectory p ?M)) = map positions (points traj)"
    using shape fill_trajectory_positions [of "?M" p] by simp
  have reified: "map positions (points (snd (parametersToJointTrajectory env p ?M))) = map positions (points traj)"
    using timing filled
    by (auto simp add: parametersToJointTrajectory_def Let_def split: option.splits)
  show ?thesis
    using conv filled reified by (simp add: mcols_def)
qed

theorem trajectory_roundtrip_witness:
  "length (joint_names example_trajectory) = 2
   \<and> map (\<lambda>pt. length (positions pt)) (points example_trajectory) = [2, 2]
   \<and> jointTrajectorytoParameters example_trajectory
       = Done (True, \<lparr>mrows = 2, columns = [[0, 1 / 2], [1, 3 / 2]]\<rparr>)
   \<and> map positions (points (snd (parametersToJointTrajectory timed_env example_planner
          \<lparr>mrows = 2, columns = [[0, 1 / 2], [1, 3 / 2]]\<rparr>)))
       = map positions (points example_trajectory)
   \<and> map time_from_start (points (snd (parametersToJointTrajectory timed_env example_planner
          \<lparr>mrows = 2, columns = [[0, 1 / 2], [1, 3 / 2]]\<rparr>))) = [1, 1]"
proof -
  have shape: "\<forall>pt \<in> set (points example_trajectory).
                 length (positions pt) = length (joint_names example_trajectory)"
    by (simp add: example_trajectory_def)
  have timing: "\<forall>rt timed. computeTimeStamps timed_env rt (max_velocity_scaling_factor (request example_planner))
                   = Some timed
                 \<longrightarrow> map positions (points timed) = map positions (points (trajectory_msg rt))"
    by (auto simp add: timed_env_def example_env_def)
  have conv: "jointTrajectorytoParameters example_trajectory
       = Done (True, \<lparr>mrows = 2, columns = [[0, 1 / 2], [1, 3 / 2]]\<rparr>)"
    using jointTrajectorytoParameters_wellformed [OF shape] by (simp add: example_trajectory_def)
  from trajectory_roundtrip [OF shape timing] conv
  have same: "map positions (points (snd (parametersToJointTrajectory timed_env example_planner
          \<lparr>mrows = 2, columns = [[0, 1 / 2], [1, 3 / 2]]\<rparr>)))
       = map positions (points example_trajectory)"
    by auto
  have timed: "map time_from_start (points (snd (parametersToJointTrajectory timed_env example_planner
          \<lparr>mrows = 2, columns = [[0, 1 / 2], [1, 3 / 2]]\<rparr>))) = [1, 1]"
    by (simp add: solve_defs example_defs Let_def)
  have names: "length (joint_names example_trajectory) = 2"
    and sizes: "map (\<lambda>pt. length (positions pt)) (points example_trajectory) = [2, 2]"
    by (simp_all add: example_trajectory_def)
  from names sizes conv same timed show ?thesis by (intro conjI)
qed

subsection \<open>A malformed seed is skipped\<close>

text \<open>
  Claim C3.  When the request carries trajectory constraints and some waypoint has a
  number of joint constraints different from the number of active joints, or lists joint
  names that differ from the group's active joint names in order, \<^verbatim>\<open>extractSeedTrajectory\<close>
  returns false (it is a total function: nothing is thrown), and the detailed solve is the
  boundary-value branch: it never calls the seeded overload of the optimizer.
\<close>

theorem rejected_seed_falls_back:
  assumes carrying: "trajectory_constraints (request p) \<noteq> []"
    and malformed: "\<exists>wp \<in> set (trajectory_constraints (request p)).
          length (joint_constraints wp) \<noteq> length (getActiveJointModelNames (robot_model p))
          \<or> map joint_name (joint_constraints wp) \<noteq> getActiveJointModelNames (robot_model p)"
  shows "fst (extractSeedTrajectory (robot_model p) (request p) seed) = False
    \<and> solve_detailed env p res0 w0 =
        boundary_solve env p (init_response res0) (now env (ticks w0)) (w0\<lparr>ticks := Suc (ticks w0)\<rparr>)
    \<and> (\<forall>ret res' p' w'. solve_detailed env p res0 w0 = Done (ret, res', p', w')
          \<longrightarrow> (\<forall>c \<in> set (new_calls w0 w'). \<forall>M ok. c \<noteq> SolveInitial M ok))"
proof -
  from malformed have bad: "\<exists>wp \<in> set (trajectory_constraints (request p)).
          map joint_name (joint_constraints wp) \<noteq> getActiveJointModelNames (robot_model p)"
    by (metis length_map)
  have rejected: "fst (extractSeedTrajectory (robot_model p) (request p) s) = False" for s
    using bad by (rule extractSeedTrajectory_rejects)
  have mode: "solve_detailed env p res0 w0 =
        boundary_solve env p (init_response res0) (now env (ticks w0)) (w0\<lparr>ticks := Suc (ticks w0)\<rparr>)"
    using rejected by (rule solve_detailed_boundary)
  have trace: "\<forall>c \<in> set (new_calls w0 w'). \<forall>M ok. c \<noteq> SolveInitial M ok"
    if "solve_detailed env p res0 w0 = Done (ret, res', p', w')" for ret res' p' w'
  proof -
    from that mode boundary_solve_outcome [of env p "init_response res0" "now env (ticks w0)"
        "w0\<lparr>ticks := Suc (ticks w0)\<rparr>" ret res' p' w']
    obtain cs where "calls w' = calls w0 @ cs" "\<forall>c \<in> set cs. \<forall>M ok. c \<noteq> SolveInitial M ok"
      by (auto simp add: unsolved_outcome_def solved_outcome_def)
    then show ?thesis by simp
  qed
  from rejected mode trace show ?thesis by blast
qed

theorem rejected_seed_falls_back_witness:
  "trajectory_constraints (request malformed_seed_planner) \<noteq> []
   \<and> swapped_waypoint \<in> set (trajectory_constraints (request malformed_seed_planner))
   \<and> map joint_name (joint_constraints swapped_waypoint)
        \<noteq> getActiveJointModelNames (robot_model malformed_seed_planner)
   \<and> fst (extractSeedTrajectory (robot_model malformed_seed_planner) (request malformed_seed_planner)
            empty_trajectory) = False
   \<and> observe (solve_detailed example_env malformed_seed_planner default_detailed_response fresh_world)
       = Some (True, SUCCESS, [5],
               [SetMotionPlanRequest example_config True, SetConfig example_config,
                SolveStartGoal [0, 0] [1, 1] True])"
proof -
  have carrying: "trajectory_constraints (request malformed_seed_planner) \<noteq> []"
    by (simp add: malformed_seed_planner_def)
  have member: "swapped_waypoint \<in> set (trajectory_constraints (request malformed_seed_planner))"
    by (simp add: malformed_seed_planner_def)
  have order: "map joint_name (joint_constraints swapped_waypoint)
        \<noteq> getActiveJointModelNames (robot_model malformed_seed_planner)"
    by (simp add: malformed_seed_planner_def swapped_waypoint_def example_planner_def example_model_def)
  from member order have malformed: "\<exists>wp \<in> set (trajectory_constraints (request malformed_seed_planner)).
          length (joint_constraints wp) \<noteq> length (getActiveJointModelNames (robot_model malformed_seed_planner))
          \<or> map joint_name (joint_constraints wp) \<noteq> getActiveJointModelNames (robot_model malformed_seed_planner)"
    by blast
  note claim = rejected_seed_falls_back [OF carrying malformed,
      of empty_trajectory example_env default_detailed_response fresh_world]
  from claim have rejected: "fst (extractSeedTrajectory (robot_model malformed_seed_planner)
      (request malformed_seed_planner) empty_trajectory) = False"
    by (rule conjunct1)
  from claim have mode: "solve_detailed example_env malformed_seed_planner default_detailed_response fresh_world
      = boundary_solve example_env malformed_seed_planner (init_response default_detailed_response)
          (now example_env (ticks fresh_world)) (fresh_world\<lparr>ticks := Suc (ticks fresh_world)\<rparr>)"
    by (rule conjunct2 [THEN conjunct1])
  have "observe (boundary_solve example_env malformed_seed_planner (init_response default_detailed_response)
          (now example_env (ticks fresh_world)) (fresh_world\<lparr>ticks := Suc (ticks fresh_world)\<rparr>))
        = Some (True, SUCCESS, [5],
               [SetMotionPlanRequest example_config True, SetConfig example_config,
                SolveStartGoal [0, 0] [1, 1] True])"
    by (simp add: solve_defs example_defs Let_def)
  then have run: "observe (solve_detailed example_env malformed_seed_planner default_detailed_response fresh_world)
       = Some (True, SUCCESS, [5],
               [SetMotionPlanRequest example_config True, SetConfig example_config,
                SolveStartGoal [0, 0] [1, 1] True])"
    by (simp only: mode)
  from carrying member order rejected run show ?thesis by (intro conjI)
qed

subsection \<open>Boundary resolution failures\<close>

text \<open>
  Claim C5.  With no seed, when the goal constraint list is empty, or the start state does
  not parse, or inverse kinematics fails for a Cartesian goal, \<^verbatim>\<open>getStartAndGoal\<close>
  returns false and the detailed solve returns false with the error code
  \<^verbatim>\<open>INVALID_MOTION_PLAN\<close>; the planner is unchanged and no call to the optimizer or its
  task is made.
\<close>

theorem boundary_failure_invalid_motion_plan:
  assumes no_seed: "fst (extractSeedTrajectory (robot_model p) (request p) empty_trajectory) = False"
    and links: "getLinkModelNames (robot_model p) \<noteq> []"
    and cause: "goal_constraints (request p) = []
      \<or> \<not> fst (robotStateMsgToRobotState env (start_state (request p)))
      \<or> (\<exists>gc gcs pc pcs rp rps oc ocs.
            goal_constraints (request p) = gc # gcs \<and> joint_constraints gc = []
            \<and> position_constraints gc = pc # pcs \<and> primitive_poses pc = rp # rps
            \<and> orientation_constraints gc = oc # ocs
            \<and> setFromIK env
                 (enforceBounds (robot_model p) (snd (robotStateMsgToRobotState env (start_state (request p)))))
                 \<lparr>pose_position = pose_position rp, pose_orientation = orientation oc\<rparr>
                 (last (getLinkModelNames (robot_model p))) IK_ATTEMPTS (real_of_int IK_TIMEOUT) = None)"
  shows "\<exists>w1. getStartAndGoal env p (w0\<lparr>ticks := Suc (ticks w0)\<rparr>) = Done (None, w1)
    \<and> solve_detailed env p res0 w0 =
        Done (False, (init_response res0)\<lparr>d_error_code := INVALID_MOTION_PLAN\<rparr>, p, w1)
    \<and> (\<forall>c \<in> set (new_calls w0 w1). \<not> is_optimizer_call c)"
proof -
  let ?w = "w0\<lparr>ticks := Suc (ticks w0)\<rparr>"
  obtain l ls where l: "getLinkModelNames (robot_model p) = l # ls"
    using links by (cases "getLinkModelNames (robot_model p)") auto
  obtain b st where st: "robotStateMsgToRobotState env (start_state (request p)) = (b, st)"
    by (cases "robotStateMsgToRobotState env (start_state (request p))")
  have "\<exists>w1. getStartAndGoal env p ?w = Done (None, w1)"
    using cause
  proof (elim disjE exE conjE)
    assume "goal_constraints (request p) = []"
    with l st show ?thesis
      by (simp add: getStartAndGoal_def Let_def split: option.splits)
  next
    assume "\<not> fst (robotStateMsgToRobotState env (start_state (request p)))"
    with l st show ?thesis
      by (simp add: getStartAndGoal_def Let_def)
  next
    fix gc gcs pc pcs rp rps oc ocs
    assume "goal_constraints (request p) = gc # gcs" "joint_constraints gc = []"
      "position_constraints gc = pc # pcs" "primitive_poses pc = rp # rps"
      "orientation_constraints gc = oc # ocs"
      "setFromIK env
         (enforceBounds (robot_model p) (snd (robotStateMsgToRobotState env (start_state (request p)))))
         \<lparr>pose_position = pose_position rp, pose_orientation = orientation oc\<rparr>
         (last (getLinkModelNames (robot_model p))) IK_ATTEMPTS (real_of_int IK_TIMEOUT) = None"
    with l st show ?thesis
      by (simp add: getStartAndGoal_def Let_def del: last.simps split: option.splits)
  qed
  then obtain w1 where gsg: "getStartAndGoal env p ?w = Done (None, w1)" ..
  from getStartAndGoal_world [OF gsg]
  have quiet: "\<forall>c \<in> set (new_calls w0 w1). \<not> is_optimizer_call c"
    by auto
  have "solve_detailed env p res0 w0 =
        Done (False, (init_response res0)\<lparr>d_error_code := INVALID_MOTION_PLAN\<rparr>, p, w1)"
    using gsg by (simp add: solve_detailed_boundary [OF no_seed] boundary_solve_def)
  with gsg quiet show ?thesis by blast
qed

theorem boundary_failure_invalid_motion_plan_witness:
  "observe (solve_detailed example_env no_goal_planner default_detailed_response fresh_world)
     = Some (False, INVALID_MOTION_PLAN, [0], [])
   \<and> observe (solve_detailed unparsed_env example_planner default_detailed_response fresh_world)
     = Some (False, INVALID_MOTION_PLAN, [0], [])
   \<and> observe (solve_detailed example_env cartesian_planner default_detailed_response fresh_world)
     = Some (False, INVALID_MOTION_PLAN, [0],
             [SetFromIK \<lparr>pose_position = (1, 2, 3), pose_orientation = (0, 1, 0, 0)\<rparr> ''tool0'' 10 0 False])"
proof -
  let ?w = "fresh_world\<lparr>ticks := Suc (ticks fresh_world)\<rparr>"
  have no_seed: "fst (extractSeedTrajectory (robot_model p) (request p) empty_trajectory) = False"
    if "trajectory_constraints (request p) = []" for p
    using that by (simp add: extractSeedTrajectory_def)
  have links: "getLinkModelNames (robot_model p) \<noteq> []"
    if "robot_model p = example_model" for p
    using that by (simp add: example_model_def)
  have first: "observe (solve_detailed example_env no_goal_planner default_detailed_response fresh_world)
     = Some (False, INVALID_MOTION_PLAN, [0], [])"
  proof -
    have cause: "goal_constraints (request no_goal_planner) = []"
      by (simp add: no_goal_planner_def)
    from boundary_failure_invalid_motion_plan
      [of no_goal_planner example_env fresh_world default_detailed_response,
       OF no_seed links disjI1, OF _ _ cause]
    obtain w1 where "getStartAndGoal example_env no_goal_planner ?w = Done (None, w1)"
      and run: "solve_detailed example_env no_goal_planner default_detailed_response fresh_world
        = Done (False, (init_response default_detailed_response)\<lparr>d_error_code := INVALID_MOTION_PLAN\<rparr>,
                no_goal_planner, w1)"
      by (auto simp add: no_goal_planner_def example_planner_def example_request_def)
    moreover have "getStartAndGoal example_env no_goal_planner ?w = Done (None, ?w)"
      by (simp add: solve_defs example_defs Let_def)
    ultimately have "w1 = ?w" by simp
    with run show ?thesis
      by (simp add: observe_def init_response_def default_detailed_response_def resize1_def fresh_world_def)
  qed
  have second: "observe (solve_detailed unparsed_env example_planner default_detailed_response fresh_world)
     = Some (False, INVALID_MOTION_PLAN, [0], [])"
  proof -
    have cause: "\<not> fst (robotStateMsgToRobotState unparsed_env (start_state (request example_planner)))"
      by (simp add: unparsed_env_def)
    from boundary_failure_invalid_motion_plan
      [of example_planner unparsed_env fresh_world default_detailed_response,
       OF no_seed links disjI2 [OF disjI1], OF _ _ cause]
    obtain w1 where "getStartAndGoal unparsed_env example_planner ?w = Done (None, w1)"
      and run: "solve_detailed unparsed_env example_planner default_detailed_response fresh_world
        = Done (False, (init_response default_detailed_response)\<lparr>d_error_code := INVALID_MOTION_PLAN\<rparr>,
                example_planner, w1)"
      by (auto simp add: example_planner_def example_request_def)
    moreover have "getStartAndGoal unparsed_env example_planner ?w = Done (None, ?w)"
      by (simp add: solve_defs example_defs Let_def)
    ultimately have "w1 = ?w" by simp
    with run show ?thesis
      by (simp add: observe_def init_response_def default_detailed_response_def resize1_def fresh_world_def)
  qed
  have third: "observe (solve_detailed example_env cartesian_planner default_detailed_response fresh_world)
     = Some (False, INVALID_MOTION_PLAN, [0],
             [SetFromIK \<lparr>pose_position = (1, 2, 3), pose_orientation = (0, 1, 0, 0)\<rparr> ''tool0'' 10 0 False])"
  proof -
    have cause: "\<exists>gc gcs pc pcs rp rps oc ocs.
            goal_constraints (request cartesian_planner) = gc # gcs \<and> joint_constraints gc = []
            \<and> position_constraints gc = pc # pcs \<and> primitive_poses pc = rp # rps
            \<and> orientation_constraints gc = oc # ocs
            \<and> setFromIK example_env
                 (enforceBounds (robot_model cartesian_planner)
                    (snd (robotStateMsgToRobotState example_env (start_state (request cartesian_planner)))))
                 \<lparr>pose_position = pose_position rp, pose_orientation = orientation oc\<rparr>
                 (last (getLinkModelNames (robot_model cartesian_planner))) IK_ATTEMPTS
                 (real_of_int IK_TIMEOUT) = None"
      by (simp add: cartesian_planner_def cartesian_goal_def example_env_def)
    from boundary_failure_invalid_motion_plan
      [of cartesian_planner example_env fresh_world default_detailed_response,
       OF no_seed links disjI2 [OF disjI2], OF _ _ cause]
    obtain w1 where "getStartAndGoal example_env cartesian_planner ?w = Done (None, w1)"
      and run: "solve_detailed example_env cartesian_planner default_detailed_response fresh_world
        = Done (False, (init_response default_detailed_response)\<lparr>d_error_code := INVALID_MOTION_PLAN\<rparr>,
                cartesian_planner, w1)"
      by (auto simp add: cartesian_planner_def example_planner_def example_request_def)
    moreover have "getStartAndGoal example_env cartesian_planner ?w
       = Done (None, record_call (SetFromIK \<lparr>pose_position = (1, 2, 3), pose_orientation = (0, 1, 0, 0)\<rparr>
                        ''tool0'' 10 0 False) ?w)"
      by (simp add: solve_defs example_defs Let_def IK_ATTEMPTS_def IK_TIMEOUT_zero)
    ultimately have "w1 = record_call (SetFromIK \<lparr>pose_position = (1, 2, 3), pose_orientation = (0, 1, 0, 0)\<rparr>
                        ''tool0'' 10 0 False) ?w" by simp
    with run show ?thesis
      by (simp add: observe_def init_response_def default_detailed_response_def resize1_def fresh_world_def)
  qed
  from first second third show ?thesis by (intro conjI)
qed

subsection \<open>The configuration of a seeded solve\<close>

text \<open>
  Claim C9.  In a seeded solve (the seed has fewer than \<open>2^31\<close> points, so its size fits
  the \<^verbatim>\<open>int\<close> field, and the optimizer handle exists) the configuration bound to the task
  and applied to the optimizer is the planner's baseline configuration with only
  \<^verbatim>\<open>num_timesteps\<close> replaced by the number of seed points, which is the number of
  waypoints of the request; the planner's baseline configuration is the same after the
  solve.  The configuration is applied only when the task accepted the request.
\<close>

theorem seeded_solve_configuration:
  assumes seeded: "extractSeedTrajectory (robot_model p) (request p) empty_trajectory = (True, seed)"
    and fits: "length (points seed) < 2 ^ 31"
    and handle: "stomp p = Some s"
  shows "\<exists>ret res' p' w' M.
      solve_detailed env p res0 w0 = Done (ret, res', p', w')
    \<and> stomp_config p' = stomp_config p
    \<and> length (points seed) = length (trajectory_constraints (request p))
    \<and> (new_calls w0 w' =
          [SetMotionPlanRequest ((stomp_config p)\<lparr>num_timesteps := int (length (points seed))\<rparr>) False]
        \<and> p' = p
       \<or> new_calls w0 w' =
          [SetMotionPlanRequest ((stomp_config p)\<lparr>num_timesteps := int (length (points seed))\<rparr>) True,
           SetConfig ((stomp_config p)\<lparr>num_timesteps := int (length (points seed))\<rparr>),
           SolveInitial M ret]
        \<and> p' = p\<lparr>stomp := Some (s\<lparr>config := (stomp_config p)\<lparr>num_timesteps := int (length (points seed))\<rparr>\<rparr>)\<rparr>)"
proof -
  let ?w = "w0\<lparr>ticks := Suc (ticks w0)\<rparr>"
  let ?cfg = "(stomp_config p)\<lparr>num_timesteps := int (length (points seed))\<rparr>"
  let ?st = "now env (ticks w0)"
  let ?res = "init_response res0"
  from extractSeedTrajectory_True [OF seeded]
  have ok: "trajectory_constraints (request p) \<noteq> []"
    "\<forall>wp \<in> set (trajectory_constraints (request p)).
        map joint_name (joint_constraints wp) = getActiveJointModelNames (robot_model p)"
    by simp_all
  from extractSeedTrajectory_accepts [OF ok, of empty_trajectory] seeded
  have seed: "seed = \<lparr>joint_names = getActiveJointModelNames (robot_model p),
                      points = map (\<lambda>wp. empty_point\<lparr>positions := map position (joint_constraints wp)\<rparr>)
                                 (trajectory_constraints (request p))\<rparr>"
    by (simp add: empty_trajectory_def)
  have count: "length (points seed) = length (trajectory_constraints (request p))"
    by (simp add: seed)
  have shape: "\<forall>pt \<in> set (points seed). length (positions pt) = length (joint_names seed)"
  proof
    fix pt assume "pt \<in> set (points seed)"
    then obtain wp where wp: "wp \<in> set (trajectory_constraints (request p))"
      and pt: "pt = empty_point\<lparr>positions := map position (joint_constraints wp)\<rparr>"
      by (auto simp add: seed)
    from ok(2) wp have "length (map joint_name (joint_constraints wp))
        = length (getActiveJointModelNames (robot_model p))"
      by simp
    then show "length (positions pt) = length (joint_names seed)"
      by (simp add: pt seed)
  qed
  let ?M = "\<lparr>mrows = length (joint_names seed), columns = map positions (points seed)\<rparr>"
  have conv: "jointTrajectorytoParameters seed = Done (True, ?M)"
    using shape by (rule jointTrajectorytoParameters_wellformed)
  have solve: "solve_detailed env p res0 w0 =
      configure_and_solve env p ?res ?st ?cfg (\<lambda>s. stomp_solve_initial env s ?M) (SolveInitial ?M) ?w"
    by (simp add: solve_detailed_seeded [OF seeded] seeded_solve_def conv size_to_int_small [OF fits])
  show ?thesis
  proof (cases "fst (setMotionPlanRequest env (request p) ?cfg (d_error_code ?res))")
    case False
    let ?w' = "record_call (SetMotionPlanRequest ?cfg False) ?w"
    have run: "solve_detailed env p res0 w0 = Done (False, ?res\<lparr>d_error_code := FAILURE\<rparr>, p, ?w')"
      unfolding solve by (rule configure_and_solve_unbound [OF False])
    have trace: "new_calls w0 ?w' = [SetMotionPlanRequest ?cfg False]"
      by (simp add: new_calls_def)
    from run trace count show ?thesis by blast
  next
    case bound: True
    let ?p' = "p\<lparr>stomp := Some (s\<lparr>config := ?cfg\<rparr>)\<rparr>"
    have kept: "stomp_config ?p' = stomp_config p" by simp
    show ?thesis
    proof (cases "fst (stomp_solve_initial env (s\<lparr>config := ?cfg\<rparr>) ?M)")
      case False
      let ?w' = "record_call (SolveInitial ?M False) (record_call (SetConfig ?cfg)
                   (record_call (SetMotionPlanRequest ?cfg True) ?w))"
      have run: "solve_detailed env p res0 w0
                   = Done (False, ?res\<lparr>d_error_code := PLANNING_FAILED\<rparr>, ?p', ?w')"
        unfolding solve
        using configure_and_solve_failed [where run = "\<lambda>s. stomp_solve_initial env s ?M" and s = s
          and sc = "SolveInitial ?M" and st = ?st and w = ?w, OF bound handle] False
        by simp
      have trace: "new_calls w0 ?w' = [SetMotionPlanRequest ?cfg True, SetConfig ?cfg, SolveInitial ?M False]"
        by (simp add: new_calls_def)
      from run trace count kept show ?thesis by blast
    next
      case True
      from configure_and_solve_solved [where run = "\<lambda>s. stomp_solve_initial env s ?M" and s = s
          and sc = "SolveInitial ?M" and st = ?st and w = ?w, OF bound handle] True
      obtain res' w' where
        "configure_and_solve env p ?res ?st ?cfg (\<lambda>s. stomp_solve_initial env s ?M) (SolveInitial ?M) ?w
           = Done (True, res', ?p', w')"
        and grown: "calls w' = calls ?w @ [SetMotionPlanRequest ?cfg True, SetConfig ?cfg, SolveInitial ?M True]"
        by auto
      then have run: "solve_detailed env p res0 w0 = Done (True, res', ?p', w')"
        unfolding solve by simp
      have trace: "new_calls w0 w' = [SetMotionPlanRequest ?cfg True, SetConfig ?cfg, SolveInitial ?M True]"
        using grown by (simp add: new_calls_def)
      from run trace count kept show ?thesis by blast
    qed
  qed
qed

theorem seeded_solve_configuration_witness:
  "extractSeedTrajectory (robot_model seeded_planner) (request seeded_planner) empty_trajectory
     = (True, \<lparr>joint_names = [''j1'', ''j2''],
               points = [empty_point\<lparr>positions := [0, 0]\<rparr>, empty_point\<lparr>positions := [1 / 2, 1 / 2]\<rparr>,
                         empty_point\<lparr>positions := [1, 1]\<rparr>]\<rparr>)
   \<and> stomp seeded_planner = Some \<lparr>config = example_config\<rparr>
   \<and> observe (solve_detailed example_env seeded_planner default_detailed_response fresh_world)
       = Some (True, SUCCESS, [5],
               [SetMotionPlanRequest (example_config\<lparr>num_timesteps := 3\<rparr>) True,
                SetConfig (example_config\<lparr>num_timesteps := 3\<rparr>),
                SolveInitial \<lparr>mrows = 2, columns = [[0, 0], [1 / 2, 1 / 2], [1, 1]]\<rparr> True])
   \<and> (\<exists>ret res' p' w'.
         solve_detailed example_env seeded_planner default_detailed_response fresh_world
           = Done (ret, res', p', w')
         \<and> stomp_config p' = example_config)"
proof -
  let ?seed = "\<lparr>joint_names = [''j1'', ''j2''],
               points = [empty_point\<lparr>positions := [0, 0]\<rparr>, empty_point\<lparr>positions := [1 / 2, 1 / 2]\<rparr>,
                         empty_point\<lparr>positions := [1, 1]\<rparr>]\<rparr>"
  have seeded: "extractSeedTrajectory (robot_model seeded_planner) (request seeded_planner) empty_trajectory
     = (True, ?seed)"
    by (simp add: extractSeedTrajectory_def seeded_planner_def example_planner_def example_request_def
        example_model_def joint_goal_def empty_trajectory_def empty_point_def Let_def)
  have fits: "length (points ?seed) < 2 ^ 31"
    by simp
  have handle: "stomp seeded_planner = Some \<lparr>config = example_config\<rparr>"
    by (simp add: seeded_planner_def example_planner_def)
  from seeded_solve_configuration [OF seeded fits handle, of example_env default_detailed_response fresh_world]
  obtain ret res' p' w' M where
    run: "solve_detailed example_env seeded_planner default_detailed_response fresh_world = Done (ret, res', p', w')"
    and kept: "stomp_config p' = stomp_config seeded_planner"
    by blast
  from kept have "stomp_config p' = example_config"
    by (simp add: seeded_planner_def example_planner_def)
  with run have baseline: "\<exists>ret res' p' w'.
         solve_detailed example_env seeded_planner default_detailed_response fresh_world
           = Done (ret, res', p', w')
         \<and> stomp_config p' = example_config"
    by blast
  have "observe (solve_detailed example_env seeded_planner default_detailed_response fresh_world)
       = Some (True, SUCCESS, [5],
               [SetMotionPlanRequest (example_config\<lparr>num_timesteps := 3\<rparr>) True,
                SetConfig (example_config\<lparr>num_timesteps := 3\<rparr>),
                SolveInitial \<lparr>mrows = 2, columns = [[0, 0], [1 / 2, 1 / 2], [1, 1]]\<rparr> True])"
    by code_simp
  with seeded handle baseline show ?thesis by (intro conjI)
qed

subsection \<open>Processing time\<close>

text \<open>
  Claim C7, as the code has it.  The compact solve always writes its planning time: the
  wall-clock time between its entry and the return of the detailed solve.  The detailed
  solve writes its processing-time entry only when the optimizer produced a result; on the
  paths that return early (boundary resolution failed, the task rejected the request, the
  optimizer failed) the entry keeps the value \<^verbatim>\<open>resize(1)\<close> left there.
\<close>

theorem processing_time_written:
  "(\<forall>ret dres p' w1.
      solve_detailed env p default_detailed_response (w0\<lparr>ticks := Suc (ticks w0)\<rparr>) = Done (ret, dres, p', w1)
      \<longrightarrow> (\<exists>res'. solve_compact env p res w0 = Done (ret, res', p', w1\<lparr>ticks := Suc (ticks w1)\<rparr>)
             \<and> r_planning_time res' = now env (ticks w1) - now env (ticks w0)
             \<and> r_error_code res' = d_error_code dres))
   \<and> (\<forall>ret res' p' w'.
        solve_detailed env p res0 w0 = Done (ret, res', p', w')
        \<longrightarrow> d_processing_time res' =
             (if \<exists>c \<in> set (new_calls w0 w'). is_solve_success c
              then [now env (ticks w' - 1) - now env (ticks w0)]
              else resize1 0 (d_processing_time res0)))"
proof (intro conjI allI impI)
  fix ret dres p' w1
  assume run: "solve_detailed env p default_detailed_response (w0\<lparr>ticks := Suc (ticks w0)\<rparr>)
                 = Done (ret, dres, p', w1)"
  from solve_detailed_outcome [OF run]
  have "length (d_trajectory dres) = 1"
    by (auto simp add: unsolved_outcome_def solved_outcome_def)
  then obtain t where "d_trajectory dres = [t]"
    by (cases "d_trajectory dres") simp_all
  with run show "\<exists>res'. solve_compact env p res w0 = Done (ret, res', p', w1\<lparr>ticks := Suc (ticks w1)\<rparr>)
             \<and> r_planning_time res' = now env (ticks w1) - now env (ticks w0)
             \<and> r_error_code res' = d_error_code dres"
    by (simp add: solve_compact_def read_clock_def)
next
  fix ret res' p' w'
  assume run: "solve_detailed env p res0 w0 = Done (ret, res', p', w')"
  from solve_detailed_outcome [OF run]
  show "d_processing_time res' =
             (if \<exists>c \<in> set (new_calls w0 w'). is_solve_success c
              then [now env (ticks w' - 1) - now env (ticks w0)]
              else resize1 0 (d_processing_time res0))"
    by (auto simp add: unsolved_outcome_def solved_outcome_def update_singleton)
qed

theorem processing_time_written_witness:
  "observe_compact (solve_compact example_env example_planner default_response fresh_world)
     = Some (True, SUCCESS, 15)
   \<and> observe_time (solve_detailed example_env example_planner default_detailed_response fresh_world)
     = Some ([5], 2)
   \<and> observe_time (solve_detailed failing_env example_planner default_detailed_response fresh_world)
     = Some ([0], 1)"
proof -
  let ?traj = "Some \<lparr>reference_state = state_of_msg [(''j1'', 0), (''j2'', 0)],
               trajectory_msg = \<lparr>joint_names = [''j1'', ''j2''],
                 points = [\<lparr>positions = [0, 0], velocities = [0, 0], accelerations = [0, 0], time_from_start = 0\<rparr>,
                           \<lparr>positions = [1, 1], velocities = [0, 0], accelerations = [0, 0], time_from_start = 0\<rparr>]\<rparr>\<rparr>"
  let ?p' = "example_planner\<lparr>stomp := Some \<lparr>config = example_config\<rparr>\<rparr>"
  let ?calls = "[SetMotionPlanRequest example_config True, SetConfig example_config]"
  have inner: "solve_detailed example_env example_planner default_detailed_response
                 (fresh_world\<lparr>ticks := Suc (ticks fresh_world)\<rparr>)
      = Done (True,
          \<lparr>d_trajectory = [?traj], d_description = [[]], d_processing_time = [5], d_error_code = SUCCESS\<rparr>,
          ?p', \<lparr>ticks = 3, calls = ?calls @ [SolveStartGoal [0, 0] [1, 1] True]\<rparr>)"
    by (simp add: solve_defs example_defs Let_def)
  have solved: "solve_detailed example_env example_planner default_detailed_response fresh_world
      = Done (True,
          \<lparr>d_trajectory = [?traj], d_description = [[]], d_processing_time = [5], d_error_code = SUCCESS\<rparr>,
          ?p', \<lparr>ticks = 2, calls = ?calls @ [SolveStartGoal [0, 0] [1, 1] True]\<rparr>)"
    by (simp add: solve_defs example_defs Let_def)
  have failed: "solve_detailed failing_env example_planner default_detailed_response fresh_world
      = Done (False,
          \<lparr>d_trajectory = [None], d_description = [[]], d_processing_time = [0],
           d_error_code = PLANNING_FAILED\<rparr>,
          ?p', \<lparr>ticks = 1, calls = ?calls @ [SolveStartGoal [0, 0] [1, 1] False]\<rparr>)"
    by (simp add: solve_defs example_defs Let_def)
  note compact = processing_time_written
      [of example_env example_planner fresh_world default_response default_detailed_response,
       THEN conjunct1, rule_format, OF inner]
  note on_success = processing_time_written
      [of example_env example_planner fresh_world default_response default_detailed_response,
       THEN conjunct2, rule_format, OF solved]
  note on_failure = processing_time_written
      [of failing_env example_planner fresh_world default_response default_detailed_response,
       THEN conjunct2, rule_format, OF failed]
  from compact obtain res' where
    "solve_compact example_env example_planner default_response fresh_world
       = Done (True, res', ?p', \<lparr>ticks = 3, calls = ?calls @ [SolveStartGoal [0, 0] [1, 1] True]\<rparr>\<lparr>ticks := Suc 3\<rparr>)"
    "r_planning_time res' = now example_env 3 - now example_env (ticks fresh_world)"
    "r_error_code res' = SUCCESS"
    by auto
  then have first: "observe_compact (solve_compact example_env example_planner default_response fresh_world)
     = Some (True, SUCCESS, 15)"
    by (simp add: observe_compact_def example_env_def fresh_world_def)
  from on_success have second:
    "observe_time (solve_detailed example_env example_planner default_detailed_response fresh_world)
     = Some ([5], 2)"
    by (simp add: solved observe_time_def)
  from on_failure have third:
    "observe_time (solve_detailed failing_env example_planner default_detailed_response fresh_world)
     = Some ([0], 1)"
    by (simp add: failed observe_time_def)
  from first second third show ?thesis by simp
qed

text \<open>Claim C7 as stated asks for the processing time on every path.  When the optimizer
  fails, a response that came in with a processing-time entry of 42 leaves with that entry,
  and the clock has been read once, at entry.\<close>

theorem failed_solve_keeps_stale_time_counterexample:
  "observe (solve_detailed failing_env example_planner stale_response fresh_world)
     = Some (False, PLANNING_FAILED, [42],
             [SetMotionPlanRequest example_config True, SetConfig example_config,
              SolveStartGoal [0, 0] [1, 1] False])
   \<and> observe_time (solve_detailed failing_env example_planner stale_response fresh_world) = Some ([42], 1)
   \<and> now failing_env 1 - now failing_env 0 = 5"
  by (simp add: solve_defs example_defs Let_def)

subsection \<open>Joint-space goals\<close>

text \<open>
  Claim C4, as the code has it.  With no undefined access (the group has links), a start
  state that parses, active joints and constrained joints known to the model, and a first
  goal constraint set with joint constraints, \<^verbatim>\<open>getStartAndGoal\<close> returns true.  The
  start vector holds the start state's value of each active joint clamped into the joint's
  bounds.  In the goal vector each active joint named by a goal constraint holds the
  position of the last constraint naming it, clamped into the joint's bounds, and each
  active joint not named holds its start vector value.  When every active joint's lower
  bound is at most its upper bound, every entry of both vectors lies within the bounds.
\<close>

theorem joint_goal_resolution:
  assumes links: "getLinkModelNames (robot_model p) \<noteq> []"
    and parsed: "robotStateMsgToRobotState env (start_state (request p)) = (True, s0)"
    and known: "set (getActiveJointModelNames (robot_model p)) \<subseteq> set (variable_names (robot_model p))"
    and goal: "goal_constraints (request p) = gc # gcs"
    and joint_space: "joint_constraints gc \<noteq> []"
    and named: "\<forall>c \<in> set (joint_constraints gc). joint_name c \<in> set (variable_names (robot_model p))"
    and bounds: "\<forall>n \<in> set (getActiveJointModelNames (robot_model p)).
                   fst (variable_bounds (robot_model p) n) \<le> snd (variable_bounds (robot_model p) n)"
  shows "\<exists>start goal.
      getStartAndGoal env p w = Done (Some (start, goal), w)
    \<and> start = map (\<lambda>n. clamp (variable_bounds (robot_model p) n) (s0 n))
                (getActiveJointModelNames (robot_model p))
    \<and> goal = map (\<lambda>n. case map_of (rev (map (\<lambda>c. (joint_name c, position c)) (joint_constraints gc))) n of
                        Some v \<Rightarrow> clamp (variable_bounds (robot_model p) n) v
                      | None \<Rightarrow> clamp (variable_bounds (robot_model p) n) (s0 n))
               (getActiveJointModelNames (robot_model p))
    \<and> (\<forall>j < length (getActiveJointModelNames (robot_model p)).
          fst (variable_bounds (robot_model p) (getActiveJointModelNames (robot_model p) ! j)) \<le> start ! j
        \<and> start ! j \<le> snd (variable_bounds (robot_model p) (getActiveJointModelNames (robot_model p) ! j))
        \<and> fst (variable_bounds (robot_model p) (getActiveJointModelNames (robot_model p) ! j)) \<le> goal ! j
        \<and> goal ! j \<le> snd (variable_bounds (robot_model p) (getActiveJointModelNames (robot_model p) ! j)))"
proof -
  let ?m = "robot_model p"
  let ?names = "getActiveJointModelNames ?m"
  let ?b = "variable_bounds ?m"
  let ?last = "map_of (rev (map (\<lambda>c. (joint_name c, position c)) (joint_constraints gc)))"
  let ?start = "map (\<lambda>n. clamp (?b n) (s0 n)) ?names"
  let ?goal = "map (\<lambda>n. case ?last n of Some v \<Rightarrow> clamp (?b n) v | None \<Rightarrow> clamp (?b n) (s0 n)) ?names"
  let ?s1 = "enforceBounds ?m s0"
  let ?s2 = "\<lambda>n. case ?last n of Some v \<Rightarrow> v | None \<Rightarrow> ?s1 n"
  obtain l ls where l: "getLinkModelNames ?m = l # ls"
    using links by (cases "getLinkModelNames ?m") auto
  have start: "copy_positions ?m ?s1 ?names = Some ?start"
    by (simp add: copy_positions_known [OF known] enforceBounds_def)
  have written: "set_goal_positions ?m ?s1 (joint_constraints gc) = Some ?s2"
    using named by (rule set_goal_positions_known)
  have "map (enforceBounds ?m ?s2) ?names = ?goal"
    by (auto simp add: enforceBounds_def clamp_idem split: option.splits)
  then have goal_vec: "copy_positions ?m (enforceBounds ?m ?s2) ?names = Some ?goal"
    by (simp add: copy_positions_known [OF known])
  have run: "getStartAndGoal env p w = Done (Some (?start, ?goal), w)"
    using l parsed goal joint_space start written goal_vec
    by (simp add: getStartAndGoal_def Let_def del: last.simps)
  have inside: "fst (?b (?names ! j)) \<le> ?start ! j \<and> ?start ! j \<le> snd (?b (?names ! j))
        \<and> fst (?b (?names ! j)) \<le> ?goal ! j \<and> ?goal ! j \<le> snd (?b (?names ! j))"
    if "j < length ?names" for j
  proof -
    from that bounds have ordered: "fst (?b (?names ! j)) \<le> snd (?b (?names ! j))"
      by simp
    from that clamp_within [OF ordered] show ?thesis
      by (simp split: option.splits)
  qed
  from run inside show ?thesis by blast
qed

theorem joint_goal_resolution_witness:
  "getStartAndGoal example_env example_planner fresh_world = Done (Some ([0, 0], [1, 1]), fresh_world)
   \<and> getStartAndGoal example_env partial_goal_planner fresh_world
       = Done (Some ([1 / 2, 0], [1 / 2, 1]), fresh_world)"
proof -
  have links: "getLinkModelNames (robot_model p) \<noteq> []" if "robot_model p = example_model" for p
    using that by (simp add: example_model_def)
  have known: "set (getActiveJointModelNames (robot_model p)) \<subseteq> set (variable_names (robot_model p))"
    if "robot_model p = example_model" for p
    using that by (simp add: example_model_def)
  have bounds: "\<forall>n \<in> set (getActiveJointModelNames (robot_model p)).
                   fst (variable_bounds (robot_model p) n) \<le> snd (variable_bounds (robot_model p) n)"
    if "robot_model p = example_model" for p
    using that by (simp add: example_model_def)
  have m1: "robot_model example_planner = example_model"
    and m2: "robot_model partial_goal_planner = example_model"
    by (simp_all add: partial_goal_planner_def example_planner_def)
  have parsed1: "robotStateMsgToRobotState example_env (start_state (request example_planner))
                  = (True, state_of_msg [(''j1'', 0), (''j2'', 0)])"
    by (simp add: example_env_def example_planner_def example_request_def)
  have parsed2: "robotStateMsgToRobotState example_env (start_state (request partial_goal_planner))
                  = (True, state_of_msg [(''j1'', 1 / 2), (''j2'', 0)])"
    by (simp add: example_env_def partial_goal_planner_def)
  have goal1: "goal_constraints (request example_planner) = joint_goal 1 1 # []"
    by (simp add: example_planner_def example_request_def)
  have goal2: "goal_constraints (request partial_goal_planner)
      = \<lparr>joint_constraints = [\<lparr>joint_name = ''j2'', position = 1\<rparr>],
          position_constraints = [], orientation_constraints = []\<rparr> # []"
    by (simp add: partial_goal_planner_def)
  have joint_space1: "joint_constraints (joint_goal 1 1) \<noteq> []"
    by (simp add: joint_goal_def)
  have named1: "\<forall>c \<in> set (joint_constraints (joint_goal 1 1)).
                  joint_name c \<in> set (variable_names (robot_model example_planner))"
    by (simp add: m1 joint_goal_def example_model_def)
  have joint_space2: "joint_constraints
      \<lparr>joint_constraints = [\<lparr>joint_name = ''j2'', position = 1\<rparr>],
        position_constraints = [], orientation_constraints = []\<rparr> \<noteq> []"
    by simp
  have named2: "\<forall>c \<in> set (joint_constraints
      \<lparr>joint_constraints = [\<lparr>joint_name = ''j2'', position = 1\<rparr>],
        position_constraints = [], orientation_constraints = []\<rparr>).
                  joint_name c \<in> set (variable_names (robot_model partial_goal_planner))"
    by (simp add: m2 example_model_def)
  from joint_goal_resolution [OF links [OF m1] parsed1 known [OF m1] goal1 joint_space1
      named1 bounds [OF m1], of fresh_world]
  have first: "getStartAndGoal example_env example_planner fresh_world
      = Done (Some ([0, 0], [1, 1]), fresh_world)"
    by (simp add: m1 example_model_def joint_goal_def state_of_msg_def clamp_def)
  from joint_goal_resolution [OF links [OF m2] parsed2 known [OF m2] goal2 joint_space2
      named2 bounds [OF m2], of fresh_world]
  have second: "getStartAndGoal example_env partial_goal_planner fresh_world
      = Done (Some ([1 / 2, 0], [1 / 2, 1]), fresh_world)"
    by (simp add: m2 example_model_def state_of_msg_def clamp_def)
  from first second show ?thesis by (intro conjI)
qed

text \<open>Claim C4 as stated lets every named joint take its constraint's position.  A goal
  constraint of 3 for a joint with bounds \<open>[-2, 2]\<close> gives the goal value 2.\<close>

theorem out_of_bounds_goal_counterexample:
  "goal_constraints (request out_of_bounds_planner) = [joint_goal 3 1]
   \<and> joint_constraints (joint_goal 3 1) ! 0 = \<lparr>joint_name = ''j1'', position = 3\<rparr>
   \<and> getStartAndGoal example_env out_of_bounds_planner fresh_world
       = Done (Some ([0, 0], [2, 1]), fresh_world)"
  by (simp add: solve_defs example_defs Let_def)

subsection \<open>A colliding trajectory\<close>

text \<open>
  Claim C1 asks that a trajectory the planning scene reports invalid makes the detailed
  solve return false with the error code \<^verbatim>\<open>PLANNING_FAILED\<close>.  On the example planner
  with a scene that rejects every path, the optimizer succeeds, the error code becomes
  \<^verbatim>\<open>PLANNING_FAILED\<close>, and the solve returns true: line 262 assigns false to the local
  \<^verbatim>\<open>success\<close>, line 270 returns the literal \<^verbatim>\<open>true\<close>.
\<close>

theorem colliding_trajectory_returns_true:
  "planning_scene colliding_planner = Some colliding_scene
   \<and> observe (solve_detailed example_env colliding_planner default_detailed_response fresh_world)
     = Some (True, PLANNING_FAILED, [5],
             [SetMotionPlanRequest example_config True, SetConfig example_config,
              SolveStartGoal [0, 0] [1, 1] True])"
  by (simp add: solve_defs example_defs Let_def)

end
